theory Spec2Isabelle
  imports Complex_Main
begin

section \<open>Tables of survey responses\<close>

text \<open>
  The scripts work on pandas tables. A cell holds a finite number, an infinite float, a
  string, or a missing marker (\<open>NA\<close> stands for NaN, None and pd.NA alike: every operation
  the scripts apply treats them the same way).
\<close>

datatype cell = Num real | PInf | NInf | Str string | NA

text \<open>
  The survey codes are numbers, so Boolean cells are left out. Numbers are reals: the
  scripts only compare them and add small integers, which floats do exactly.
\<close>

datatype error = KeyError string | TypeError | FitError

text \<open>
  A row carries its index label and its cells by column name; the list \<open>columns\<close> is the
  schema. A cell under a name outside the schema is never read: every read of a column
  goes through \<open>getcol\<close>, which raises KeyError as \<open>df[c]\<close> does.
\<close>

type_synonym row = "nat \<times> (string \<Rightarrow> cell)"

text \<open>
  A table read from a file has the index labels 0, 1, 2, ...; a filter keeps the labels of
  the rows it keeps. Where a property follows a respondent through a filter it assumes
  that the labels of the input are distinct.
\<close>

record frame =
  columns :: "string list"
  rows :: "row list"

definition bind_err :: "error + 'a \<Rightarrow> ('a \<Rightarrow> error + 'b) \<Rightarrow> error + 'b" where
  "bind_err m f = (case m of Inl e \<Rightarrow> Inl e | Inr x \<Rightarrow> f x)"

subsection \<open>Element-wise operations on a column\<close>

fun isna :: "cell \<Rightarrow> bool" where
  "isna NA = True"
| "isna _ = False"

definition notna :: "cell \<Rightarrow> bool" where
  "notna c = (\<not> isna c)"

text \<open>\<open>s == v\<close> against a number: only a finite number equal to \<open>v\<close> compares equal.\<close>

fun cell_eq :: "real \<Rightarrow> cell \<Rightarrow> bool" where
  "cell_eq v (Num x) = (x = v)"
| "cell_eq v _ = False"

text \<open>\<open>s.isin(vs)\<close> for a list of numbers.\<close>

fun cell_isin :: "real list \<Rightarrow> cell \<Rightarrow> bool" where
  "cell_isin vs (Num x) = (x \<in> set vs)"
| "cell_isin vs _ = False"

text \<open>
  \<open>s > v\<close> and \<open>s >= v\<close> against a number: a missing cell compares False, a string
  against a number raises TypeError.
\<close>

fun cell_gt :: "real \<Rightarrow> cell \<Rightarrow> error + bool" where
  "cell_gt v (Num x) = Inr (v < x)"
| "cell_gt v PInf = Inr True"
| "cell_gt v NInf = Inr False"
| "cell_gt v NA = Inr False"
| "cell_gt v (Str s) = Inl TypeError"

fun cell_ge :: "real \<Rightarrow> cell \<Rightarrow> error + bool" where
  "cell_ge v (Num x) = Inr (v \<le> x)"
| "cell_ge v PInf = Inr True"
| "cell_ge v NInf = Inr False"
| "cell_ge v NA = Inr False"
| "cell_ge v (Str s) = Inl TypeError"

fun try_map :: "('a \<Rightarrow> error + 'b) \<Rightarrow> 'a list \<Rightarrow> error + 'b list" where
  "try_map f [] = Inr []"
| "try_map f (x # xs) =
     (case f x of Inl e \<Rightarrow> Inl e
      | Inr y \<Rightarrow> (case try_map f xs of Inl e \<Rightarrow> Inl e | Inr ys \<Rightarrow> Inr (y # ys)))"

definition series_eq :: "cell list \<Rightarrow> real \<Rightarrow> bool list" where
  "series_eq s v = map (cell_eq v) s"

definition isin :: "cell list \<Rightarrow> real list \<Rightarrow> bool list" where
  "isin s vs = map (cell_isin vs) s"

definition series_gt :: "cell list \<Rightarrow> real \<Rightarrow> error + bool list" where
  "series_gt s v = try_map (cell_gt v) s"

definition series_ge :: "cell list \<Rightarrow> real \<Rightarrow> error + bool list" where
  "series_ge s v = try_map (cell_ge v) s"

definition series_isna :: "cell list \<Rightarrow> bool list" where
  "series_isna s = map isna s"

definition series_notna :: "cell list \<Rightarrow> bool list" where
  "series_notna s = map notna s"

text \<open>\<open>.astype(float)\<close> and \<open>.astype(int)\<close> of a boolean column.\<close>

definition astype_float :: "bool list \<Rightarrow> cell list" where
  "astype_float bs = map (\<lambda>b. Num (if b then 1 else 0)) bs"

definition astype_int :: "bool list \<Rightarrow> cell list" where
  "astype_int bs = map (\<lambda>b. Num (if b then 1 else 0)) bs"

text \<open>\<open>s.map(d)\<close> for a dictionary with number keys: a cell that is no key becomes NaN.\<close>

fun cell_map :: "(real \<times> string) list \<Rightarrow> cell \<Rightarrow> cell" where
  "cell_map d (Num x) = (case map_of d x of Some l \<Rightarrow> Str l | None \<Rightarrow> NA)"
| "cell_map d _ = NA"

definition series_map :: "(real \<times> string) list \<Rightarrow> cell list \<Rightarrow> cell list" where
  "series_map d s = map (cell_map d) s"

subsection \<open>Operations on a table\<close>

text \<open>\<open>df[c]\<close>\<close>

definition getcol :: "string \<Rightarrow> frame \<Rightarrow> error + cell list" where
  "getcol c df =
     (if c \<in> set (columns df) then Inr (map (\<lambda>r. snd r c) (rows df)) else Inl (KeyError c))"

definition add_column :: "string \<Rightarrow> string list \<Rightarrow> string list" where
  "add_column c cs = (if c \<in> set cs then cs else cs @ [c])"

text \<open>\<open>df[c] = s\<close> for a column \<open>s\<close> computed from the same table\<close>

definition setcol :: "string \<Rightarrow> cell list \<Rightarrow> frame \<Rightarrow> frame" where
  "setcol c s df =
     \<lparr>columns = add_column c (columns df),
      rows = map (\<lambda>(r, v). (fst r, (snd r)(c := v))) (zip (rows df) s)\<rparr>"

text \<open>\<open>df[c] = v\<close> for a scalar\<close>

definition setcol_scalar :: "string \<Rightarrow> cell \<Rightarrow> frame \<Rightarrow> frame" where
  "setcol_scalar c v df =
     \<lparr>columns = add_column c (columns df),
      rows = map (\<lambda>r. (fst r, (snd r)(c := v))) (rows df)\<rparr>"

text \<open>
  \<open>df.loc[mask, c] = v\<close>: the cells of \<open>c\<close> in the masked rows become \<open>v\<close>; when \<open>c\<close> is a
  new column its other cells are NaN.
\<close>

definition loc_set :: "bool list \<Rightarrow> string \<Rightarrow> cell \<Rightarrow> frame \<Rightarrow> frame" where
  "loc_set msk c v df =
     \<lparr>columns = add_column c (columns df),
      rows = map (\<lambda>(r, b). (fst r, (snd r)(c := (if b then v
                                else if c \<in> set (columns df) then snd r c else NA))))
               (zip (rows df) msk)\<rparr>"

text \<open>\<open>df[mask]\<close>: the rows under a True, with their index labels\<close>

definition filter_rows :: "bool list \<Rightarrow> frame \<Rightarrow> frame" where
  "filter_rows msk df = df\<lparr>rows := map fst (filter snd (zip (rows df) msk))\<rparr>"

section \<open>Data preparation (01_prepare_data.py)\<close>

subsection \<open>Step 1, CSV path: age groups from the raw age\<close>

text \<open>
  A Python float is finite, infinite or NaN. \<open>float(age)\<close> on a cell of the raw age
  column: a number converts to itself; a string is parsed by Python's \<open>float\<close>, which is
  not code of this repository and is taken as the parameter \<open>parse\<close> (\<open>None\<close> when it
  raises ValueError). A missing cell is NaN, or None for which \<open>float\<close> raises: both
  ways \<open>assign_age_group\<close> returns pd.NA, so the model takes the NaN way.
\<close>

datatype pyfloat = Finite real | PosInf | NegInf | NaN

fun py_float :: "(string \<Rightarrow> pyfloat option) \<Rightarrow> cell \<Rightarrow> pyfloat option" where
  "py_float parse (Num x) = Some (Finite x)"
| "py_float parse PInf = Some PosInf"
| "py_float parse NInf = Some NegInf"
| "py_float parse NA = Some NaN"
| "py_float parse (Str s) = parse s"

fun float_ge :: "pyfloat \<Rightarrow> real \<Rightarrow> bool" where
  "float_ge (Finite x) v = (v \<le> x)"
| "float_ge PosInf v = True"
| "float_ge NegInf v = False"
| "float_ge NaN v = False"

fun float_lt :: "pyfloat \<Rightarrow> real \<Rightarrow> bool" where
  "float_lt (Finite x) v = (x < v)"
| "float_lt PosInf v = False"
| "float_lt NegInf v = True"
| "float_lt NaN v = False"

definition assign_age_group :: "(string \<Rightarrow> pyfloat option) \<Rightarrow> cell \<Rightarrow> cell" where
  "assign_age_group parse c =
     (case py_float parse c of
        None \<Rightarrow> NA
      | Some age \<Rightarrow>
          if age = NaN then NA
          else if float_ge age 18 \<and> float_lt age 30 then Num 1
          else if float_ge age 30 \<and> float_lt age 40 then Num 2
          else if float_ge age 40 \<and> float_lt age 50 then Num 3
          else if float_ge age 50 \<and> float_lt age 60 then Num 4
          else if float_ge age 60 \<and> float_lt age 70 then Num 5
          else if float_ge age 70 \<and> float_lt age 80 then Num 6
          else if float_ge age 80 then Num 7
          else NA)"

text \<open>\<open>df['edad_grupo'] = df['p4'].apply(assign_age_group)\<close>\<close>

definition load_csv :: "(string \<Rightarrow> pyfloat option) \<Rightarrow> frame \<Rightarrow> error + frame" where
  "load_csv parse df =
     bind_err (getcol ''p4'' df) (\<lambda>p4.
     Inr (setcol ''edad_grupo'' (map (assign_age_group parse) p4) df))"

subsection \<open>Step 2: HIV knowledge score\<close>

definition hiv_items :: "(string \<times> real) list" where
  "hiv_items =
     [(''i_1_p212'', 1), (''i_2_p212'', 1), (''i_3_p212'', 1),
      (''i_4_p212'', 2), (''i_5_p212'', 2), (''i_6_p212'', 1)]"

text \<open>Addition of two cells, as \<open>+=\<close> on a column does it element by element.\<close>

fun cell_add :: "cell \<Rightarrow> cell \<Rightarrow> error + cell" where
  "cell_add (Str s) _ = Inl TypeError"
| "cell_add _ (Str s) = Inl TypeError"
| "cell_add NA _ = Inr NA"
| "cell_add _ NA = Inr NA"
| "cell_add (Num x) (Num y) = Inr (Num (x + y))"
| "cell_add PInf NInf = Inr NA"
| "cell_add NInf PInf = Inr NA"
| "cell_add PInf _ = Inr PInf"
| "cell_add _ PInf = Inr PInf"
| "cell_add NInf _ = Inr NInf"
| "cell_add _ NInf = Inr NInf"

definition series_add :: "cell list \<Rightarrow> cell list \<Rightarrow> error + cell list" where
  "series_add s t = try_map (\<lambda>(a, b). cell_add a b) (zip s t)"

text \<open>The loop over the items of \<open>hiv_items\<close>; an item that is no column is skipped.\<close>

fun knowledge_loop :: "(string \<times> real) list \<Rightarrow> frame \<Rightarrow> error + frame" where
  "knowledge_loop [] df = Inr df"
| "knowledge_loop ((item, correct_answer) # rest) df =
     (if item \<in> set (columns df) then
        bind_err (getcol ''hiv_knowledge_score'' df) (\<lambda>score.
        bind_err (getcol item df) (\<lambda>answers.
        bind_err (series_add score (astype_int (series_eq answers correct_answer))) (\<lambda>total.
        knowledge_loop rest (setcol ''hiv_knowledge_score'' total df))))
      else knowledge_loop rest df)"

definition step2_knowledge :: "frame \<Rightarrow> error + frame" where
  "step2_knowledge df =
     knowledge_loop hiv_items (setcol_scalar ''hiv_knowledge_score'' (Num 0) df)"

subsection \<open>Step 3: condom use variables\<close>

definition condom_labels :: "(real \<times> string) list" where
  "condom_labels = [(1, ''Always''), (2, ''Sometimes''), (3, ''Never'')]"

definition step3_condom :: "frame \<Rightarrow> error + frame" where
  "step3_condom df0 =
     bind_err (getcol ''p73'' df0) (\<lambda>p73.
     let df1 = setcol ''condom_use_freq'' p73 df0 in
     bind_err (getcol ''p73'' df1) (\<lambda>p73.
     let df2 = loc_set (isin p73 [9, 99]) ''condom_use_freq'' NA df1 in
     bind_err (getcol ''p73'' df2) (\<lambda>p73.
     let df3 = setcol ''always_condom'' (astype_float (series_eq p73 1)) df2 in
     bind_err (getcol ''p73'' df3) (\<lambda>p73.
     let df4 = loc_set (isin p73 [9, 99]) ''always_condom'' NA df3 in
     bind_err (getcol ''p73'' df4) (\<lambda>p73.
     let df5 = setcol ''ever_condom'' (astype_float (isin p73 [1, 2])) df4 in
     bind_err (getcol ''p73'' df5) (\<lambda>p73.
     let df6 = loc_set (isin p73 [9, 99]) ''ever_condom'' NA df5 in
     bind_err (getcol ''condom_use_freq'' df6) (\<lambda>freq.
     Inr (setcol ''condom_use_lbl'' (series_map condom_labels freq) df6))))))))"

subsection \<open>Step 4: partner variables\<close>

definition step4_partners :: "frame \<Rightarrow> error + frame" where
  "step4_partners df0 =
     bind_err (getcol ''p71'' df0) (\<lambda>p71.
     let df1 = setcol ''partners_last_year'' p71 df0 in
     bind_err (getcol ''p71'' df1) (\<lambda>p71.
     let df2 = loc_set (series_eq p71 999) ''partners_last_year'' NA df1 in
     bind_err (getcol ''p71'' df2) (\<lambda>p71.
     bind_err (series_gt p71 100) (\<lambda>extreme.
     let df3 = loc_set extreme ''partners_last_year'' NA df2 in
     bind_err (getcol ''partners_last_year'' df3) (\<lambda>partners.
     bind_err (series_ge partners 2) (\<lambda>multiple.
     let df4 = setcol ''multiple_partners'' (astype_float multiple) df3 in
     bind_err (getcol ''partners_last_year'' df4) (\<lambda>partners.
     Inr (loc_set (series_isna partners) ''multiple_partners'' NA df4))))))))"

subsection \<open>Step 5: STI diagnosis variables\<close>

definition startswith :: "string \<Rightarrow> string \<Rightarrow> bool" where
  "startswith c p = (take (length p) c = p)"

definition sti_vars :: "frame \<Rightarrow> string list" where
  "sti_vars df = filter (\<lambda>c. startswith c ''p202_'') (columns df)"

definition series_or :: "bool list \<Rightarrow> bool list \<Rightarrow> bool list" where
  "series_or s t = map (\<lambda>(a, b). a \<or> b) (zip s t)"

fun sti_loop :: "string list \<Rightarrow> frame \<Rightarrow> error + frame" where
  "sti_loop [] df = Inr df"
| "sti_loop (var # rest) df =
     (if var \<in> set (columns df) then
        bind_err (getcol ''any_sti'' df) (\<lambda>sofar.
        bind_err (getcol var df) (\<lambda>diagnosis.
        sti_loop rest
          (setcol ''any_sti''
             (astype_float (series_or (series_eq sofar 1) (series_eq diagnosis 1))) df)))
      else sti_loop rest df)"

definition any_sti :: "frame \<Rightarrow> error + frame" where
  "any_sti df =
     (if ''its_alguna_vez'' \<in> set (columns df) then
        bind_err (getcol ''its_alguna_vez'' df) (\<lambda>ever.
        Inr (setcol ''any_sti'' (astype_float (series_eq ever 1)) df))
      else sti_loop (sti_vars df) (setcol_scalar ''any_sti'' (Num 0) df))"

definition hiv_diagnosis :: "frame \<Rightarrow> error + frame" where
  "hiv_diagnosis df =
     (if ''p202_vih'' \<in> set (columns df) then
        bind_err (getcol ''p202_vih'' df) (\<lambda>vih.
        Inr (setcol ''hiv_diagnosis'' (astype_float (series_eq vih 1)) df))
      else Inr (setcol_scalar ''hiv_diagnosis'' NA df))"

definition step5_sti :: "frame \<Rightarrow> error + frame" where
  "step5_sti df = bind_err (any_sti df) hiv_diagnosis"

subsection \<open>Step 6: HIV testing variables\<close>

text \<open>
  The pattern of \<open>tested_hiv_12mo\<close> and \<open>knows_prep\<close>: 1.0 where the raw code is 1, 0.0
  elsewhere, NaN under a sentinel; NaN everywhere when the raw column is absent.
\<close>

definition indicator_of :: "string \<Rightarrow> string \<Rightarrow> frame \<Rightarrow> error + frame" where
  "indicator_of raw out df0 =
     (if raw \<in> set (columns df0) then
        bind_err (getcol raw df0) (\<lambda>s.
        let df1 = setcol out (astype_float (series_eq s 1)) df0 in
        bind_err (getcol raw df1) (\<lambda>s.
        Inr (loc_set (isin s [9, 99]) out NA df1)))
      else Inr (setcol_scalar out NA df0))"

text \<open>The pattern of \<open>test_reason\<close> and \<open>no_test_reason\<close>: a copy with sentinels as NaN.\<close>

definition reason_of :: "string \<Rightarrow> string \<Rightarrow> frame \<Rightarrow> error + frame" where
  "reason_of raw out df0 =
     (if raw \<in> set (columns df0) then
        bind_err (getcol raw df0) (\<lambda>s.
        let df1 = setcol out s df0 in
        bind_err (getcol raw df1) (\<lambda>s.
        Inr (loc_set (isin s [9, 99]) out NA df1)))
      else Inr (setcol_scalar out NA df0))"

definition step6_testing :: "frame \<Rightarrow> error + frame" where
  "step6_testing df =
     bind_err (indicator_of ''p208'' ''tested_hiv_12mo'' df) (\<lambda>df.
     bind_err (reason_of ''p210'' ''test_reason'' df) (\<lambda>df.
     bind_err (reason_of ''p211'' ''no_test_reason'' df) (\<lambda>df.
     indicator_of ''p213'' ''knows_prep'' df)))"

subsection \<open>Step 7: age group labels\<close>

definition age_labels :: "(real \<times> string) list" where
  "age_labels =
     [(1, ''18-29''), (2, ''30-39''), (3, ''40-49''), (4, ''50-59''),
      (5, ''60-69''), (6, ''70-79''), (7, ''80+'')]"

definition step7_labels :: "frame \<Rightarrow> error + frame" where
  "step7_labels df =
     (if ''edad_grupo_lbl'' \<notin> set (columns df) then
        bind_err (getcol ''edad_grupo'' df) (\<lambda>g.
        Inr (setcol ''edad_grupo_lbl'' (series_map age_labels g) df))
      else Inr df)"

text \<open>
  Steps 2 to 7 in the order of the script: the table with every derived variable. The
  progress prints between the statements are left out. One of them can raise: after
  step 7 the script prints \<open>value_counts().sort_index()\<close> of the labels, a TypeError when
  a label column read from the file mixes text and numbers; the model goes on there.
\<close>

definition construct_variables :: "frame \<Rightarrow> error + frame" where
  "construct_variables df =
     bind_err (step2_knowledge df) (\<lambda>df.
     bind_err (step3_condom df) (\<lambda>df.
     bind_err (step4_partners df) (\<lambda>df.
     bind_err (step5_sti df) (\<lambda>df.
     bind_err (step6_testing df) step7_labels))))"

subsection \<open>Step 8: the analysis sample\<close>

datatype inclusion = Active | HasCondom | HasAge

text \<open>
  One filter statement of step 8: the mask is computed on the table it filters. The
  print after each filter divides by the number of rows of the full table, a
  ZeroDivisionError on a table with no rows; the prints are left out, so the model
  returns the empty sample there.
\<close>

fun apply_filter :: "inclusion \<Rightarrow> frame \<Rightarrow> error + frame" where
  "apply_filter Active df =
     bind_err (getcol ''partners_last_year'' df) (\<lambda>s.
     bind_err (series_gt s 0) (\<lambda>m. Inr (filter_rows m df)))"
| "apply_filter HasCondom df =
     bind_err (getcol ''condom_use_freq'' df) (\<lambda>s. Inr (filter_rows (series_notna s) df))"
| "apply_filter HasAge df =
     bind_err (getcol ''edad_grupo'' df) (\<lambda>s. Inr (filter_rows (series_notna s) df))"

definition df_analysis :: "frame \<Rightarrow> error + frame" where
  "df_analysis df =
     bind_err (apply_filter Active df) (\<lambda>df.
     bind_err (apply_filter HasCondom df) (\<lambda>df.
     apply_filter HasAge df))"

text \<open>The same filter statements run in another order, for the comparison of orders.\<close>

fun apply_filters :: "inclusion list \<Rightarrow> frame \<Rightarrow> error + frame" where
  "apply_filters [] df = Inr df"
| "apply_filters (f # fs) df = bind_err (apply_filter f df) (apply_filters fs)"

text \<open>The script up to the analysis sample, on the Excel path and on the CSV path.\<close>

definition prepare :: "frame \<Rightarrow> error + frame" where
  "prepare df = bind_err (construct_variables df) df_analysis"

definition prepare_csv :: "(string \<Rightarrow> pyfloat option) \<Rightarrow> frame \<Rightarrow> error + frame" where
  "prepare_csv parse df = bind_err (load_csv parse df) prepare"

section \<open>Regression models (03_regression_models.py)\<close>

subsection \<open>Complete cases of a model\<close>

text \<open>\<open>df[[c1, ..., cn]]\<close>: KeyError when a name is no column\<close>

definition select_cols :: "string list \<Rightarrow> frame \<Rightarrow> error + frame" where
  "select_cols cs df =
     (case filter (\<lambda>c. c \<notin> set (columns df)) cs of
        [] \<Rightarrow> Inr (df\<lparr>columns := cs\<rparr>)
      | c # _ \<Rightarrow> Inl (KeyError c))"

text \<open>\<open>.dropna()\<close>: the rows with no missing cell in any column of the table\<close>

definition complete_case :: "string list \<Rightarrow> row \<Rightarrow> bool" where
  "complete_case cs r = list_all (\<lambda>c. notna (snd r c)) cs"

definition dropna :: "frame \<Rightarrow> frame" where
  "dropna df = df\<lparr>rows := filter (complete_case (columns df)) (rows df)\<rparr>"

definition model1_data :: "frame \<Rightarrow> error + frame" where
  "model1_data df =
     bind_err (select_cols [''always_condom'', ''edad_grupo'', ''hiv_knowledge_score''] df)
       (\<lambda>d. Inr (dropna d))"

definition model2_data :: "frame \<Rightarrow> error + frame" where
  "model2_data df =
     bind_err (select_cols [''always_condom'', ''edad_grupo'', ''hiv_knowledge_score'',
                            ''partners_last_year''] df)
       (\<lambda>d. Inr (dropna d))"

definition model3_data :: "frame \<Rightarrow> error + frame" where
  "model3_data df =
     bind_err (select_cols [''always_condom'', ''edad_grupo'', ''hiv_knowledge_score'',
                            ''partners_last_year'', ''any_sti'', ''tested_hiv_12mo''] df)
       (\<lambda>d. Inr (dropna d))"

definition model4_data :: "frame \<Rightarrow> error + frame" where
  "model4_data df =
     bind_err (select_cols [''always_condom'', ''edad_grupo'', ''hiv_knowledge_score'',
                            ''partners_last_year'', ''any_sti'', ''tested_hiv_12mo'',
                            ''knows_prep''] df)
       (\<lambda>d. Inr (dropna d))"

definition model5_data :: "frame \<Rightarrow> error + frame" where
  "model5_data df =
     bind_err (select_cols [''always_condom'', ''edad_grupo'', ''hiv_knowledge_score'',
                            ''partners_last_year''] df)
       (\<lambda>d. Inr (dropna d))"

subsection \<open>Age-stratified models\<close>

text \<open>\<open>s.unique()\<close>: the distinct cells in the order of their first appearance\<close>

definition unique :: "cell list \<Rightarrow> cell list" where
  "unique s = rev (remdups (rev s))"

text \<open>
  \<open>sorted\<close> on labels: strings are ordered by code point, numbers by value; a list that
  mixes strings and numbers raises TypeError.
\<close>

fun str_le :: "string \<Rightarrow> string \<Rightarrow> bool" where
  "str_le [] t = True"
| "str_le (x # xs) [] = False"
| "str_le (x # xs) (y # ys) =
     ((of_char x :: nat) < of_char y \<or> (x = y \<and> str_le xs ys))"

fun cell_le :: "cell \<Rightarrow> cell \<Rightarrow> bool" where
  "cell_le (Str s) (Str t) = str_le s t"
| "cell_le NInf _ = True"
| "cell_le _ PInf = True"
| "cell_le (Num x) (Num y) = (x \<le> y)"
| "cell_le _ _ = False"

fun insert_sorted :: "cell \<Rightarrow> cell list \<Rightarrow> cell list" where
  "insert_sorted x [] = [x]"
| "insert_sorted x (y # ys) = (if cell_le x y then x # y # ys else y # insert_sorted x ys)"

fun is_str :: "cell \<Rightarrow> bool" where
  "is_str (Str s) = True"
| "is_str _ = False"

definition sorted_cells :: "cell list \<Rightarrow> error + cell list" where
  "sorted_cells xs =
     (if list_all is_str xs \<or> list_all (\<lambda>c. \<not> is_str c) xs
      then Inr (foldr insert_sorted xs [])
      else Inl TypeError)"

definition age_groups :: "frame \<Rightarrow> error + cell list" where
  "age_groups df =
     bind_err (getcol ''edad_grupo_lbl'' df) (\<lambda>s. sorted_cells (filter notna (unique s)))"

text \<open>\<open>s == age\<close> for a label \<open>age\<close>: a missing cell equals nothing.\<close>

definition cell_equals :: "cell \<Rightarrow> cell \<Rightarrow> bool" where
  "cell_equals age c = (notna c \<and> c = age)"

definition age_data :: "frame \<Rightarrow> cell \<Rightarrow> error + frame" where
  "age_data df age =
     bind_err (getcol ''edad_grupo_lbl'' df) (\<lambda>s.
     bind_err (select_cols [''always_condom'', ''hiv_knowledge_score'', ''partners_last_year'']
                 (filter_rows (map (cell_equals age) s) df))
       (\<lambda>d. Inr (dropna d)))"

record 'm stratum =
  Age_Group :: cell
  N :: nat
  fitted :: 'm

text \<open>
  The loop over the age groups. The fit of a logistic model is statsmodels' and is taken
  as the parameter \<open>fit\<close>: it returns the fitted model or raises.
\<close>

fun strata_loop ::
  "(frame \<Rightarrow> error + 'm) \<Rightarrow> frame \<Rightarrow> cell list \<Rightarrow> 'm stratum list \<Rightarrow> error + 'm stratum list"
where
  "strata_loop fit df [] results = Inr results"
| "strata_loop fit df (age # rest) results =
     bind_err (age_data df age) (\<lambda>d.
     if 30 \<le> length (rows d) then
       bind_err (fit d) (\<lambda>m.
       strata_loop fit df rest
         (results @ [\<lparr>Age_Group = age, N = length (rows d), fitted = m\<rparr>]))
     else strata_loop fit df rest results)"

definition age_stratified_results ::
  "(frame \<Rightarrow> error + 'm) \<Rightarrow> frame \<Rightarrow> error + 'm stratum list" where
  "age_stratified_results fit df =
     bind_err (age_groups df) (\<lambda>groups. strata_loop fit df groups [])"

section \<open>An example table\<close>

text \<open>Three respondents, with two of the six knowledge items as columns.\<close>

definition example_table :: frame where
  "example_table =
     \<lparr>columns = [''p73'', ''p71'', ''edad_grupo'', ''i_1_p212'', ''i_4_p212''],
      rows =
        [(0, (\<lambda>c. NA)(''p73'' := Num 1, ''p71'' := Num 2, ''edad_grupo'' := Num 2,
                        ''i_1_p212'' := Num 1, ''i_4_p212'' := Num 2)),
         (1, (\<lambda>c. NA)(''p73'' := Num 9, ''p71'' := Num 1, ''edad_grupo'' := Num 3,
                        ''i_1_p212'' := Num 2, ''i_4_p212'' := Num 9)),
         (2, (\<lambda>c. NA)(''p71'' := Num 999, ''edad_grupo'' := Num 1,
                        ''i_1_p212'' := Num 1))]\<rparr>"

text \<open>Two respondents, with all six knowledge items as columns.\<close>

definition knowledge_table :: frame where
  "knowledge_table =
     \<lparr>columns = [''i_1_p212'', ''i_2_p212'', ''i_3_p212'', ''i_4_p212'', ''i_5_p212'',
                 ''i_6_p212''],
      rows =
        [(0, (\<lambda>c. NA)(''i_1_p212'' := Num 1, ''i_2_p212'' := Num 1, ''i_3_p212'' := Num 1,
                        ''i_4_p212'' := Num 2, ''i_5_p212'' := Num 2, ''i_6_p212'' := Num 1)),
         (1, (\<lambda>c. NA)(''i_1_p212'' := Num 2, ''i_2_p212'' := Num 9, ''i_4_p212'' := Num 1,
                        ''i_5_p212'' := Num 99, ''i_6_p212'' := Num 1))]\<rparr>"

text \<open>A table that already has the three columns the filters of step 8 read.\<close>

definition derived_table :: frame where
  "derived_table =
     \<lparr>columns = [''partners_last_year'', ''condom_use_freq'', ''edad_grupo''],
      rows =
        [(0, (\<lambda>c. NA)(''partners_last_year'' := Num 2, ''condom_use_freq'' := Num 1,
                        ''edad_grupo'' := Num 2)),
         (1, (\<lambda>c. NA)(''condom_use_freq'' := Num 3, ''edad_grupo'' := Num 1)),
         (2, (\<lambda>c. NA)(''partners_last_year'' := Num 1, ''edad_grupo'' := Num 4)),
         (3, (\<lambda>c. NA)(''partners_last_year'' := Num 3, ''condom_use_freq'' := Num 2))]\<rparr>"

text \<open>
  A raw table for the CSV path, with ages as numbers and as strings, and a parser that
  reads one of the strings.
\<close>

definition example_parse :: "string \<Rightarrow> pyfloat option" where
  "example_parse s = (if s = ''45'' then Some (Finite 45) else None)"

definition csv_table :: frame where
  "csv_table =
     \<lparr>columns = [''p4'', ''p73'', ''p71''],
      rows =
        [(0, (\<lambda>c. NA)(''p4'' := Num 34, ''p73'' := Num 1, ''p71'' := Num 1)),
         (1, (\<lambda>c. NA)(''p4'' := Num 17, ''p73'' := Num 2, ''p71'' := Num 1)),
         (2, (\<lambda>c. NA)(''p4'' := Str ''abc'', ''p73'' := Num 3, ''p71'' := Num 2)),
         (3, (\<lambda>c. NA)(''p4'' := Str ''45'', ''p73'' := Num 2, ''p71'' := Num 4)),
         (4, (\<lambda>c. NA)(''p4'' := PInf, ''p73'' := Num 1, ''p71'' := Num 1))]\<rparr>"

text \<open>An analytic table as the regression script reads it, with missing cells.\<close>

definition analytic_table :: frame where
  "analytic_table =
     \<lparr>columns = [''always_condom'', ''edad_grupo'', ''hiv_knowledge_score'',
                 ''partners_last_year'', ''any_sti'', ''tested_hiv_12mo'', ''knows_prep''],
      rows =
        [(0, (\<lambda>c. NA)(''always_condom'' := Num 1, ''edad_grupo'' := Num 2,
                        ''hiv_knowledge_score'' := Num 5, ''partners_last_year'' := Num 1,
                        ''any_sti'' := Num 0, ''tested_hiv_12mo'' := Num 1,
                        ''knows_prep'' := Num 1)),
         (1, (\<lambda>c. NA)(''always_condom'' := Num 0, ''edad_grupo'' := Num 3,
                        ''hiv_knowledge_score'' := Num 4, ''partners_last_year'' := Num 2,
                        ''any_sti'' := Num 0, ''tested_hiv_12mo'' := Num 0)),
         (2, (\<lambda>c. NA)(''always_condom'' := Num 0, ''edad_grupo'' := Num 1,
                        ''hiv_knowledge_score'' := Num 6, ''partners_last_year'' := Num 3,
                        ''any_sti'' := Num 0)),
         (3, (\<lambda>c. NA)(''always_condom'' := Num 1, ''edad_grupo'' := Num 1,
                        ''hiv_knowledge_score'' := Num 2, ''any_sti'' := Num 1,
                        ''tested_hiv_12mo'' := Num 1, ''knows_prep'' := Num 0))]\<rparr>"

text \<open>The table with the given columns and the rows of the analytic table at the given positions.\<close>

definition model_sample :: "string list \<Rightarrow> nat list \<Rightarrow> frame" where
  "model_sample cs is = \<lparr>columns = cs, rows = map (\<lambda>i. rows analytic_table ! i) is\<rparr>"

text \<open>
  A table with two age groups: 30-39 has thirty complete respondents and one with a
  missing partner count, 18-29 has twenty-nine complete respondents and one with a
  missing outcome; one respondent has no age label. Two fits: one that raises on fewer
  than thirty rows, one that always raises.
\<close>

definition strata_table :: frame where
  "strata_table =
     \<lparr>columns = [''edad_grupo_lbl'', ''always_condom'', ''hiv_knowledge_score'',
                 ''partners_last_year''],
      rows =
        map (\<lambda>i. (i, (\<lambda>c. NA)(''edad_grupo_lbl'' := Str ''30-39'', ''always_condom'' := Num 1,
                             ''hiv_knowledge_score'' := Num 4,
                             ''partners_last_year'' := Num 1))) [0..<30]
        @ [(30, (\<lambda>c. NA)(''edad_grupo_lbl'' := Str ''30-39'', ''always_condom'' := Num 0,
                          ''hiv_knowledge_score'' := Num 5))]
        @ map (\<lambda>i. (i, (\<lambda>c. NA)(''edad_grupo_lbl'' := Str ''18-29'', ''always_condom'' := Num 0,
                               ''hiv_knowledge_score'' := Num 6,
                               ''partners_last_year'' := Num 2))) [31..<60]
        @ [(60, (\<lambda>c. NA)(''edad_grupo_lbl'' := Str ''18-29'',
                          ''hiv_knowledge_score'' := Num 6, ''partners_last_year'' := Num 2)),
           (61, (\<lambda>c. NA)(''always_condom'' := Num 0, ''hiv_knowledge_score'' := Num 3,
                          ''partners_last_year'' := Num 1))]\<rparr>"

definition example_fit :: "frame \<Rightarrow> error + nat" where
  "example_fit d = (if length (rows d) < 30 then Inl FitError else Inr (length (rows d)))"

definition raising_fit :: "frame \<Rightarrow> error + nat" where
  "raising_fit d = Inl FitError"

section \<open>Auxiliary notions for the proofs\<close>

text \<open>
  The number of knowledge items that are columns of the table and whose cell in the row
  equals the item's correct code.
\<close>

definition points :: "string list \<Rightarrow> (string \<times> real) list \<Rightarrow> row \<Rightarrow> nat" where
  "points cols items r =
     length (filter (\<lambda>(item, correct). item \<in> set cols \<and> snd r item = Num correct) items)"

text \<open>A row keeps its index label and every cell outside the set \<open>W\<close> of names.\<close>

definition unchanged_outside :: "string set \<Rightarrow> row \<Rightarrow> row \<Rightarrow> bool" where
  "unchanged_outside W r r' = (fst r' = fst r \<and> (\<forall>c. c \<notin> W \<longrightarrow> snd r' c = snd r c))"

text \<open>The names of the columns that steps 2 to 7 write.\<close>

definition derived_names :: "string set" where
  "derived_names =
     {''hiv_knowledge_score'', ''condom_use_freq'', ''always_condom'', ''ever_condom'',
      ''condom_use_lbl'', ''partners_last_year'', ''multiple_partners'', ''any_sti'',
      ''hiv_diagnosis'', ''tested_hiv_12mo'', ''test_reason'', ''no_test_reason'',
      ''knows_prep'', ''edad_grupo_lbl''}"

text \<open>What the constructor leaves in each row, in terms of the raw row.\<close>

definition derived_from :: "string list \<Rightarrow> row \<Rightarrow> row \<Rightarrow> bool" where
  "derived_from cols r r' \<longleftrightarrow>
     unchanged_outside derived_names r r' \<and>
     snd r' ''hiv_knowledge_score'' = Num (real (points cols hiv_items r)) \<and>
     snd r' ''condom_use_freq'' =
       (if cell_isin [9, 99] (snd r ''p73'') then NA else snd r ''p73'') \<and>
     snd r' ''always_condom'' =
       (if cell_isin [9, 99] (snd r ''p73'') then NA
        else Num (if cell_eq 1 (snd r ''p73'') then 1 else 0)) \<and>
     snd r' ''ever_condom'' =
       (if cell_isin [9, 99] (snd r ''p73'') then NA
        else Num (if cell_isin [1, 2] (snd r ''p73'') then 1 else 0)) \<and>
     \<not> is_str (snd r ''p71'') \<and>
     snd r' ''partners_last_year'' =
       (if cell_eq 999 (snd r ''p71'') \<or> cell_gt 100 (snd r ''p71'') = Inr True
        then NA else snd r ''p71'')"

text \<open>
  Following the spec's words: the complete cases of an age group are the respondents
  with that age label for whom none of always_condom, hiv_knowledge_score and
  partners_last_year is missing; the table of the group holds these rows under the
  three model columns.
\<close>

definition complete_rows :: "frame \<Rightarrow> cell \<Rightarrow> row list" where
  "complete_rows df age =
     filter (\<lambda>r. snd r ''edad_grupo_lbl'' = age \<and>
                 notna (snd r ''always_condom'') \<and>
                 notna (snd r ''hiv_knowledge_score'') \<and>
                 notna (snd r ''partners_last_year'')) (rows df)"

definition group_table :: "frame \<Rightarrow> cell \<Rightarrow> frame" where
  "group_table df age =
     \<lparr>columns = [''always_condom'', ''hiv_knowledge_score'', ''partners_last_year''],
      rows = complete_rows df age\<rparr>"

text \<open>The column a filter of step 8 reads, and the rows it keeps.\<close>

definition needs :: "inclusion \<Rightarrow> string" where
  "needs f = (case f of Active \<Rightarrow> ''partners_last_year'' | HasCondom \<Rightarrow> ''condom_use_freq''
              | HasAge \<Rightarrow> ''edad_grupo'')"

definition keeps :: "inclusion \<Rightarrow> row \<Rightarrow> bool" where
  "keeps f r = (case f of Active \<Rightarrow> cell_gt 0 (snd r ''partners_last_year'') = Inr True
                | HasCondom \<Rightarrow> notna (snd r ''condom_use_freq'')
                | HasAge \<Rightarrow> notna (snd r ''edad_grupo''))"

section \<open>Properties of the table operations\<close>

lemma set_add_column [simp]: "set (add_column c cs) = insert c (set cs)"
  by (auto simp: add_column_def)

lemma columns_setcol [simp]: "columns (setcol c s df) = add_column c (columns df)"
  by (simp add: setcol_def)

lemma columns_setcol_scalar [simp]:
  "columns (setcol_scalar c v df) = add_column c (columns df)"
  by (simp add: setcol_scalar_def)

lemma columns_loc_set [simp]: "columns (loc_set m c v df) = add_column c (columns df)"
  by (simp add: loc_set_def)

lemma columns_filter_rows [simp]: "columns (filter_rows m df) = columns df"
  by (simp add: filter_rows_def)

lemma zip_map_same: "zip xs (map f xs) = map (\<lambda>x. (x, f x)) xs"
  by (induction xs) auto

lemma zip_map_map_same: "zip (map h xs) (map g xs) = map (\<lambda>x. (h x, g x)) xs"
  by (induction xs) auto

lemma filter_snd_map:
  "map fst (filter snd (map (\<lambda>x. (h x, p x)) xs)) = map h (filter p xs)"
  by (induction xs) auto

lemmas zip_same = zip_map_same zip_map_map_same filter_snd_map

lemma rows_setcol [simp]:
  "rows (setcol c s df) = map (\<lambda>(r, v). (fst r, (snd r)(c := v))) (zip (rows df) s)"
  by (simp add: setcol_def)

lemma rows_setcol_scalar [simp]:
  "rows (setcol_scalar c v df) = map (\<lambda>r. (fst r, (snd r)(c := v))) (rows df)"
  by (simp add: setcol_scalar_def)

lemma rows_loc_set [simp]:
  "rows (loc_set m c v df) =
     map (\<lambda>(r, b). (fst r, (snd r)(c := (if b then v
                 else if c \<in> set (columns df) then snd r c else NA)))) (zip (rows df) m)"
  by (simp add: loc_set_def)

lemma rows_filter_rows [simp]:
  "rows (filter_rows m df) = map fst (filter snd (zip (rows df) m))"
  by (simp add: filter_rows_def)

lemma getcol_present:
  "c \<in> set (columns df) \<Longrightarrow> getcol c df = Inr (map (\<lambda>r. snd r c) (rows df))"
  by (simp add: getcol_def)

lemma getcol_absent: "c \<notin> set (columns df) \<Longrightarrow> getcol c df = Inl (KeyError c)"
  by (simp add: getcol_def)

lemma bind_err_Inr [simp]: "bind_err (Inr x) f = f x"
  by (simp add: bind_err_def)

lemma bind_err_Inl [simp]: "bind_err (Inl e) f = Inl e"
  by (simp add: bind_err_def)

lemma bind_err_eq_Inr:
  "bind_err m f = Inr y \<longleftrightarrow> (\<exists>x. m = Inr x \<and> f x = Inr y)"
  by (cases m) auto

lemmas series_defs =
  series_eq_def isin_def series_isna_def series_notna_def astype_float_def astype_int_def
  series_map_def

lemma cell_eq_iff: "cell_eq v c \<longleftrightarrow> c = Num v"
  by (cases c) auto

lemma try_map_add_Num:
  "try_map (\<lambda>(a, b). cell_add a b) (map (\<lambda>x. (Num (f x), Num (g x))) xs)
     = Inr (map (\<lambda>x. Num (f x + g x)) xs)"
  by (induction xs) auto

lemma real_of_bool_nat: "real (if b then 1 else 0) = (if b then 1 else 0)"
  by simp

lemma add_column_present [simp]: "c \<in> set cs \<Longrightarrow> add_column c cs = cs"
  by (simp add: add_column_def)

lemma knowledge_loop_rows:
  assumes "''hiv_knowledge_score'' \<in> set (columns df)"
    and "rows df = map (\<lambda>r. (fst r, (snd r)(''hiv_knowledge_score'' := Num (real (acc r))))) rs"
    and "''hiv_knowledge_score'' \<notin> fst ` set items"
  shows "\<exists>d. knowledge_loop items df = Inr d \<and> columns d = columns df \<and>
    rows d = map (\<lambda>r. (fst r, (snd r)(''hiv_knowledge_score'' :=
                Num (real (acc r + points (columns df) items r))))) rs"
  using assms
proof (induction items arbitrary: df acc)
  case Nil
  then show ?case by (simp add: points_def)
next
  case (Cons ic items)
  obtain item correct where ic: "ic = (item, correct)" by (cases ic)
  have ne: "item \<noteq> ''hiv_knowledge_score''" using Cons.prems(3) ic by auto
  have p3: "''hiv_knowledge_score'' \<notin> fst ` set items" using Cons.prems(3) by simp
  show ?case
  proof (cases "item \<in> set (columns df)")
    case False
    have pts: "\<And>r. points (columns df) (ic # items) r = points (columns df) items r"
      using False ic by (simp add: points_def)
    have "knowledge_loop (ic # items) df = knowledge_loop items df"
      using False ic by simp
    then show ?thesis
      using Cons.IH[OF Cons.prems(1) Cons.prems(2) p3] unfolding pts by simp
  next
    case True
    let ?acc = "\<lambda>r. acc r + (if snd r item = Num correct then 1 else 0)"
    let ?df = "setcol ''hiv_knowledge_score''
                 (map (\<lambda>r. Num (real (?acc r))) rs) df"
    have pts: "\<And>r. acc r + points (columns df) (ic # items) r
                    = ?acc r + points (columns df) items r"
      using True ic by (simp add: points_def)
    have step: "knowledge_loop (ic # items) df = knowledge_loop items ?df"
      using True ne Cons.prems(1) ic
      by (simp add: Cons.prems(2) getcol_present series_defs series_add_def zip_same comp_def
          try_map_add_Num cell_eq_iff real_of_bool_nat)
    have c: "columns ?df = columns df" using Cons.prems(1) by simp
    have c1: "''hiv_knowledge_score'' \<in> set (columns ?df)" using Cons.prems(1) by simp
    have r: "rows ?df = map (\<lambda>r. (fst r, (snd r)(''hiv_knowledge_score'' := Num (real (?acc r))))) rs"
      by (auto simp add: Cons.prems(2) zip_same comp_def fun_eq_iff)
    show ?thesis
      using Cons.IH[OF c1 r p3] unfolding step pts c by simp
  qed
qed


lemma points_add_column:
  "c \<notin> fst ` set items \<Longrightarrow> points (add_column c cs) items r = points cs items r"
  unfolding points_def
  by (rule arg_cong[where f=length], rule filter_cong) (force simp: add_column_def)+

lemma points_le: "points cs items r \<le> length items"
  by (simp add: points_def)

lemma step2_knowledge_eq:
  "step2_knowledge df = Inr \<lparr>columns = add_column ''hiv_knowledge_score'' (columns df),
     rows = map (\<lambda>r. (fst r, (snd r)(''hiv_knowledge_score'' :=
                Num (real (points (columns df) hiv_items r))))) (rows df)\<rparr>"
proof -
  let ?df = "setcol_scalar ''hiv_knowledge_score'' (Num 0) df"
  have a: "''hiv_knowledge_score'' \<in> set (columns ?df)" by simp
  have b: "rows ?df = map (\<lambda>r. (fst r, (snd r)(''hiv_knowledge_score'' := Num (real ((\<lambda>r. 0) r))))) (rows df)"
    by simp
  have c: "''hiv_knowledge_score'' \<notin> fst ` set hiv_items" by (simp add: hiv_items_def)
  from knowledge_loop_rows[OF a b c] obtain d where d: "knowledge_loop hiv_items ?df = Inr d"
    "columns d = columns ?df"
    "rows d = map (\<lambda>r. (fst r, (snd r)(''hiv_knowledge_score'' :=
                Num (real (0 + points (columns ?df) hiv_items r))))) (rows df)" by blast
  have "d = \<lparr>columns = add_column ''hiv_knowledge_score'' (columns df),
     rows = map (\<lambda>r. (fst r, (snd r)(''hiv_knowledge_score'' :=
                Num (real (points (columns df) hiv_items r))))) (rows df)\<rparr>"
    using d(2,3) c by (simp add: points_add_column)
  then show ?thesis using d(1) by (simp add: step2_knowledge_def)
qed

lemma step3_condom_eq:
  "step3_condom df =
    (if ''p73'' \<in> set (columns df) then
     Inr \<lparr>columns = add_column ''condom_use_lbl'' (add_column ''ever_condom''
            (add_column ''always_condom'' (add_column ''condom_use_freq'' (columns df)))),
      rows = map (\<lambda>r. (fst r, (snd r)
      (''condom_use_freq'' := (if cell_isin [9, 99] (snd r ''p73'') then NA else snd r ''p73''),
       ''always_condom'' := (if cell_isin [9, 99] (snd r ''p73'') then NA
                             else Num (if cell_eq 1 (snd r ''p73'') then 1 else 0)),
       ''ever_condom'' := (if cell_isin [9, 99] (snd r ''p73'') then NA
                           else Num (if cell_isin [1, 2] (snd r ''p73'') then 1 else 0)),
       ''condom_use_lbl'' := cell_map condom_labels
          (if cell_isin [9, 99] (snd r ''p73'') then NA else snd r ''p73'')))) (rows df)\<rparr>
     else Inl (KeyError ''p73''))"
  by (simp add: step3_condom_def getcol_def series_defs Let_def zip_same comp_def
      setcol_def loc_set_def)


lemma try_map_cell_gt:
  "try_map (cell_gt v) (map g xs) =
     (if \<exists>x\<in>set xs. is_str (g x) then Inl TypeError
      else Inr (map (\<lambda>x. cell_gt v (g x) = Inr True) xs))"
proof (induction xs)
  case Nil
  then show ?case by simp
next
  case (Cons x xs)
  then show ?case by (cases "g x") auto
qed

lemma try_map_cell_ge:
  "try_map (cell_ge v) (map g xs) =
     (if \<exists>x\<in>set xs. is_str (g x) then Inl TypeError
      else Inr (map (\<lambda>x. cell_ge v (g x) = Inr True) xs))"
proof (induction xs)
  case Nil
  then show ?case by simp
next
  case (Cons x xs)
  then show ?case by (cases "g x") auto
qed

lemma is_str_if_NA [simp]: "is_str (if b then NA else c) \<longleftrightarrow> \<not> b \<and> is_str c"
  by simp

lemma step4_partners_ok:
  assumes "''p71'' \<in> set (columns df)"
    and ok: "\<And>r. r \<in> set (rows df) \<Longrightarrow> \<not> is_str (snd r ''p71'')"
  shows "\<exists>d. step4_partners df = Inr d \<and>
     columns d = add_column ''multiple_partners''
                           (add_column ''partners_last_year'' (columns df)) \<and>
     rows d = map (\<lambda>r. (fst r, (snd r)
        (''partners_last_year'' :=
           (if cell_eq 999 (snd r ''p71'') \<or> cell_gt 100 (snd r ''p71'') = Inr True
            then NA else snd r ''p71''),
         ''multiple_partners'' :=
           (if isna (if cell_eq 999 (snd r ''p71'') \<or> cell_gt 100 (snd r ''p71'') = Inr True
                     then NA else snd r ''p71'') then NA
            else Num (if cell_ge 2 (snd r ''p71'') = Inr True then 1 else 0)))))
        (rows df)"
  using assms
  apply (simp add: step4_partners_def getcol_present series_defs Let_def zip_same comp_def
          series_gt_def series_ge_def try_map_cell_gt try_map_cell_ge cong: bex_cong)
  done


lemma step4_partners_Inr:
  assumes "step4_partners df = Inr d"
  shows "''p71'' \<in> set (columns df) \<and> (\<forall>r\<in>set (rows df). \<not> is_str (snd r ''p71''))"
proof -
  have c: "''p71'' \<in> set (columns df)"
    using assms by (cases "''p71'' \<in> set (columns df)") (simp_all add: step4_partners_def getcol_def)
  have "\<not> (\<exists>r\<in>set (rows df). is_str (snd r ''p71''))"
  proof
    assume "\<exists>r\<in>set (rows df). is_str (snd r ''p71'')"
    then have "step4_partners df = Inl TypeError"
      using c
      by (simp add: step4_partners_def getcol_present series_defs Let_def zip_same comp_def
          series_gt_def try_map_cell_gt)
    then show False using assms by simp
  qed
  then show ?thesis using c by blast
qed

lemma bool_num_eq_1: "((if b then 1 else 0) = (1::real)) = b"
  by simp

lemma sti_loop_rows:
  assumes "''any_sti'' \<in> set (columns df)"
    and "rows df = map (\<lambda>r. (fst r, (snd r)(''any_sti'' := Num (if acc r then 1 else 0)))) rs"
    and "''any_sti'' \<notin> set vars"
  shows "\<exists>d. sti_loop vars df = Inr d \<and> columns d = columns df \<and>
    rows d = map (\<lambda>r. (fst r, (snd r)(''any_sti'' :=
       Num (if acc r \<or> (\<exists>v\<in>set vars. v \<in> set (columns df) \<and> snd r v = Num 1)
            then 1 else 0)))) rs"
  using assms
proof (induction vars arbitrary: df acc)
  case Nil
  then show ?case by simp
next
  case (Cons var vars)
  have ne: "var \<noteq> ''any_sti''" using Cons.prems(3) by auto
  have p3: "''any_sti'' \<notin> set vars" using Cons.prems(3) by simp
  show ?case
  proof (cases "var \<in> set (columns df)")
    case False
    have ex: "\<And>r. (\<exists>v\<in>set (var # vars). v \<in> set (columns df) \<and> snd r v = Num 1)
              = (\<exists>v\<in>set vars. v \<in> set (columns df) \<and> snd r v = Num 1)"
      using False by auto
    have "sti_loop (var # vars) df = sti_loop vars df" using False by simp
    then show ?thesis
      using Cons.IH[OF Cons.prems(1) Cons.prems(2) p3] unfolding ex by simp
  next
    case True
    let ?acc = "\<lambda>r. acc r \<or> snd r var = Num 1"
    let ?df = "setcol ''any_sti'' (map (\<lambda>r. Num (if ?acc r then 1 else 0)) rs) df"
    have ex: "\<And>r. (acc r \<or> (\<exists>v\<in>set (var # vars). v \<in> set (columns df) \<and> snd r v = Num 1))
              = (?acc r \<or> (\<exists>v\<in>set vars. v \<in> set (columns df) \<and> snd r v = Num 1))"
      using True by auto
    have step: "sti_loop (var # vars) df = sti_loop vars ?df"
      using True ne Cons.prems(1)
      by (simp add: Cons.prems(2) getcol_present series_defs series_or_def zip_same comp_def
          cell_eq_iff bool_num_eq_1)
    have c: "columns ?df = columns df" using Cons.prems(1) by simp
    have c1: "''any_sti'' \<in> set (columns ?df)" using Cons.prems(1) by simp
    have r: "rows ?df = map (\<lambda>r. (fst r, (snd r)(''any_sti'' := Num (if ?acc r then 1 else 0)))) rs"
      by (auto simp add: Cons.prems(2) zip_same comp_def fun_eq_iff)
    show ?thesis
      using Cons.IH[OF c1 r p3] unfolding step ex c by simp
  qed
qed

lemma any_sti_rows:
  "\<exists>d. any_sti df = Inr d \<and> columns d = add_column ''any_sti'' (columns df) \<and>
     rows d = map (\<lambda>r. (fst r, (snd r)(''any_sti'' :=
       Num (if (if ''its_alguna_vez'' \<in> set (columns df)
                then snd r ''its_alguna_vez'' = Num 1
                else \<exists>v\<in>set (sti_vars df). snd r v = Num 1) then 1 else 0)))) (rows df)"
proof (cases "''its_alguna_vez'' \<in> set (columns df)")
  case True
  then show ?thesis
    by (simp add: any_sti_def getcol_present series_defs zip_same comp_def cell_eq_iff)
next
  case False
  let ?df = "setcol_scalar ''any_sti'' (Num 0) df"
  have a: "''any_sti'' \<in> set (columns ?df)" by simp
  have b: "rows ?df = map (\<lambda>r. (fst r, (snd r)(''any_sti'' := Num (if (\<lambda>r. False) r then 1 else 0)))) (rows df)"
    by simp
  have c: "''any_sti'' \<notin> set (sti_vars df)"
    by (auto simp: sti_vars_def startswith_def)
  have ex: "\<And>r. (False \<or> (\<exists>v\<in>set (sti_vars df). v \<in> set (columns ?df) \<and> snd r v = Num 1))
      = (\<exists>v\<in>set (sti_vars df). snd r v = Num 1)"
    by (auto simp: sti_vars_def)
  from sti_loop_rows[OF a b c] show ?thesis
    using False unfolding ex by (simp add: any_sti_def)
qed

lemma hiv_diagnosis_rows:
  "\<exists>d. hiv_diagnosis df = Inr d \<and> columns d = add_column ''hiv_diagnosis'' (columns df) \<and>
     rows d = map (\<lambda>r. (fst r, (snd r)(''hiv_diagnosis'' :=
       (if ''p202_vih'' \<in> set (columns df)
        then Num (if snd r ''p202_vih'' = Num 1 then 1 else 0) else NA)))) (rows df)"
  by (simp add: hiv_diagnosis_def getcol_present series_defs zip_same comp_def cell_eq_iff)

lemma indicator_of_rows:
  assumes "raw \<noteq> out"
  shows "\<exists>d. indicator_of raw out df = Inr d \<and> columns d = add_column out (columns df) \<and>
     rows d = map (\<lambda>r. (fst r, (snd r)(out :=
       (if raw \<in> set (columns df)
        then (if cell_isin [9, 99] (snd r raw) then NA
              else Num (if snd r raw = Num 1 then 1 else 0))
        else NA)))) (rows df)"
  using assms
  by (simp add: indicator_of_def getcol_present series_defs zip_same comp_def cell_eq_iff
      Let_def)

lemma reason_of_rows:
  assumes "raw \<noteq> out"
  shows "\<exists>d. reason_of raw out df = Inr d \<and> columns d = add_column out (columns df) \<and>
     rows d = map (\<lambda>r. (fst r, (snd r)(out :=
       (if raw \<in> set (columns df)
        then (if cell_isin [9, 99] (snd r raw) then NA else snd r raw)
        else NA)))) (rows df)"
  using assms
  by (simp add: reason_of_def getcol_present series_defs zip_same comp_def Let_def)

lemma step7_labels_eq:
  "step7_labels df =
     (if ''edad_grupo_lbl'' \<in> set (columns df) then Inr df
      else if ''edad_grupo'' \<in> set (columns df) then
        Inr (setcol ''edad_grupo_lbl'' (map (\<lambda>r. cell_map age_labels (snd r ''edad_grupo'')) (rows df)) df)
      else Inl (KeyError ''edad_grupo''))"
  by (simp add: step7_labels_def getcol_def series_defs comp_def)


lemma list_all2_map_same:
  "(\<And>x. x \<in> set xs \<Longrightarrow> P x (f x)) \<Longrightarrow> list_all2 P xs (map f xs)"
  by (simp add: list_all2_map2 list_all2_same)

lemma unchanged_refl: "list_all2 (unchanged_outside W) xs xs"
  by (simp add: list_all2_same unchanged_outside_def)

lemma unchanged_trans:
  assumes "list_all2 (unchanged_outside W1) xs ys" "list_all2 (unchanged_outside W2) ys zs"
    and "W1 \<union> W2 \<subseteq> W"
  shows "list_all2 (unchanged_outside W) xs zs"
proof (rule list_all2_trans[OF _ assms(1) assms(2)])
  fix a b c
  assume ab: "unchanged_outside W1 a b" and bc: "unchanged_outside W2 b c"
  show "unchanged_outside W a c"
    unfolding unchanged_outside_def
  proof (intro conjI allI impI)
    show "fst c = fst a" using ab bc by (simp add: unchanged_outside_def)
  next
    fix x
    assume "x \<notin> W"
    then have x: "x \<notin> W1" "x \<notin> W2" using assms(3) by blast+
    have "snd c x = snd b x" using bc x(2) unfolding unchanged_outside_def by blast
    moreover have "snd b x = snd a x" using ab x(1) unfolding unchanged_outside_def by blast
    ultimately show "snd c x = snd a x" by simp
  qed
qed

lemma unchanged_update:
  "c \<in> W \<Longrightarrow> list_all2 (unchanged_outside W) xs (map (\<lambda>r. (fst r, (snd r)(c := g r))) xs)"
  by (rule list_all2_map_same) (simp add: unchanged_outside_def)

lemma step5_sti_unchanged:
  assumes "step5_sti df = Inr d"
  shows "list_all2 (unchanged_outside {''any_sti'', ''hiv_diagnosis''}) (rows df) (rows d)"
proof -
  obtain d1 where d1: "any_sti df = Inr d1" and d: "hiv_diagnosis d1 = Inr d"
    using assms unfolding step5_sti_def bind_err_eq_Inr by blast
  have 1: "list_all2 (unchanged_outside {''any_sti''}) (rows df) (rows d1)"
    using any_sti_rows[of df] d1 by (auto intro: unchanged_update)
  have 2: "list_all2 (unchanged_outside {''hiv_diagnosis''}) (rows d1) (rows d)"
    using hiv_diagnosis_rows[of d1] d by (auto intro: unchanged_update)
  show ?thesis by (rule unchanged_trans[OF 1 2]) simp
qed

lemma indicator_of_unchanged:
  assumes "indicator_of raw out df = Inr d" "raw \<noteq> out"
  shows "list_all2 (unchanged_outside {out}) (rows df) (rows d)"
  using indicator_of_rows[OF assms(2), of df] assms(1) by (auto intro: unchanged_update)

lemma reason_of_unchanged:
  assumes "reason_of raw out df = Inr d" "raw \<noteq> out"
  shows "list_all2 (unchanged_outside {out}) (rows df) (rows d)"
  using reason_of_rows[OF assms(2), of df] assms(1) by (auto intro: unchanged_update)

lemma step6_testing_unchanged:
  assumes "step6_testing df = Inr d"
  shows "list_all2 (unchanged_outside
           {''tested_hiv_12mo'', ''test_reason'', ''no_test_reason'', ''knows_prep''})
           (rows df) (rows d)"
proof -
  obtain d1 d2 d3 where s: "indicator_of ''p208'' ''tested_hiv_12mo'' df = Inr d1"
    "reason_of ''p210'' ''test_reason'' d1 = Inr d2"
    "reason_of ''p211'' ''no_test_reason'' d2 = Inr d3"
    "indicator_of ''p213'' ''knows_prep'' d3 = Inr d"
    using assms unfolding step6_testing_def bind_err_eq_Inr by blast
  have 1: "list_all2 (unchanged_outside {''tested_hiv_12mo''}) (rows df) (rows d1)"
    by (rule indicator_of_unchanged[OF s(1)]) simp
  have 2: "list_all2 (unchanged_outside {''test_reason''}) (rows d1) (rows d2)"
    by (rule reason_of_unchanged[OF s(2)]) simp
  have 3: "list_all2 (unchanged_outside {''no_test_reason''}) (rows d2) (rows d3)"
    by (rule reason_of_unchanged[OF s(3)]) simp
  have 4: "list_all2 (unchanged_outside {''knows_prep''}) (rows d3) (rows d)"
    by (rule indicator_of_unchanged[OF s(4)]) simp
  have 12: "list_all2 (unchanged_outside {''tested_hiv_12mo'', ''test_reason''}) (rows df) (rows d2)"
    by (rule unchanged_trans[OF 1 2]) simp
  have 34: "list_all2 (unchanged_outside {''no_test_reason'', ''knows_prep''}) (rows d2) (rows d)"
    by (rule unchanged_trans[OF 3 4]) simp
  show ?thesis by (rule unchanged_trans[OF 12 34]) auto
qed

lemma step7_labels_unchanged:
  assumes "step7_labels df = Inr d"
  shows "list_all2 (unchanged_outside {''edad_grupo_lbl''}) (rows df) (rows d)"
proof (cases "''edad_grupo_lbl'' \<in> set (columns df)")
  case True
  then have "d = df" using assms by (simp add: step7_labels_eq)
  then show ?thesis by (simp add: unchanged_refl)
next
  case False
  then have "d = setcol ''edad_grupo_lbl''
       (map (\<lambda>r. cell_map age_labels (snd r ''edad_grupo'')) (rows df)) df"
    using assms by (auto simp: step7_labels_eq split: if_splits)
  then show ?thesis by (auto simp: zip_same comp_def intro: unchanged_update)
qed




lemma construct_rows:
  assumes "construct_variables df = Inr d"
  shows "list_all2 (derived_from (columns df)) (rows df) (rows d)"
proof -
  obtain d2 d3 d4 d5 d6 where s: "step2_knowledge df = Inr d2" "step3_condom d2 = Inr d3"
    "step4_partners d3 = Inr d4" "step5_sti d4 = Inr d5" "step6_testing d5 = Inr d6"
    "step7_labels d6 = Inr d"
    using assms unfolding construct_variables_def bind_err_eq_Inr by blast
  let ?R2 = "\<lambda>r r'. unchanged_outside {''hiv_knowledge_score''} r r' \<and>
     snd r' ''hiv_knowledge_score'' = Num (real (points (columns df) hiv_items r))"
  have 2: "list_all2 ?R2 (rows df) (rows d2)"
    using s(1) unfolding step2_knowledge_eq
    by (auto intro!: list_all2_map_same simp: unchanged_outside_def)
  let ?R3 = "\<lambda>r r'. unchanged_outside
       {''condom_use_freq'', ''always_condom'', ''ever_condom'', ''condom_use_lbl''} r r' \<and>
     snd r' ''condom_use_freq'' =
       (if cell_isin [9, 99] (snd r ''p73'') then NA else snd r ''p73'') \<and>
     snd r' ''always_condom'' =
       (if cell_isin [9, 99] (snd r ''p73'') then NA
        else Num (if cell_eq 1 (snd r ''p73'') then 1 else 0)) \<and>
     snd r' ''ever_condom'' =
       (if cell_isin [9, 99] (snd r ''p73'') then NA
        else Num (if cell_isin [1, 2] (snd r ''p73'') then 1 else 0))"
  have 3: "list_all2 ?R3 (rows d2) (rows d3)"
    using s(2) unfolding step3_condom_eq
    by (auto intro!: list_all2_map_same simp: unchanged_outside_def split: if_splits)
  let ?R4 = "\<lambda>r r'. unchanged_outside {''partners_last_year'', ''multiple_partners''} r r' \<and>
     \<not> is_str (snd r ''p71'') \<and>
     snd r' ''partners_last_year'' =
       (if cell_eq 999 (snd r ''p71'') \<or> cell_gt 100 (snd r ''p71'') = Inr True
        then NA else snd r ''p71'')"
  have 4: "list_all2 ?R4 (rows d3) (rows d4)"
  proof -
    from step4_partners_Inr[OF s(3)] have ok: "''p71'' \<in> set (columns d3)"
      "\<And>r. r \<in> set (rows d3) \<Longrightarrow> \<not> is_str (snd r ''p71'')" by auto
    from step4_partners_ok[OF this] s(3) ok(2) show ?thesis
      by (auto intro!: list_all2_map_same simp: unchanged_outside_def)
  qed
  have 5: "list_all2 (unchanged_outside {''any_sti'', ''hiv_diagnosis''}) (rows d4) (rows d5)"
    by (rule step5_sti_unchanged[OF s(4)])
  have 6: "list_all2 (unchanged_outside
           {''tested_hiv_12mo'', ''test_reason'', ''no_test_reason'', ''knows_prep''})
           (rows d5) (rows d6)"
    by (rule step6_testing_unchanged[OF s(5)])
  have 7: "list_all2 (unchanged_outside {''edad_grupo_lbl''}) (rows d6) (rows d)"
    by (rule step7_labels_unchanged[OF s(6)])
  have 57: "list_all2 (unchanged_outside {''any_sti'', ''hiv_diagnosis'',
       ''tested_hiv_12mo'', ''test_reason'', ''no_test_reason'', ''knows_prep'',
       ''edad_grupo_lbl''}) (rows d4) (rows d)"
    by (rule unchanged_trans[OF unchanged_trans[OF 5 6 subset_refl] 7]) auto
  let ?RA = "\<lambda>r r'. unchanged_outside {''hiv_knowledge_score'', ''condom_use_freq'',
       ''always_condom'', ''ever_condom'', ''condom_use_lbl''} r r' \<and>
     snd r' ''hiv_knowledge_score'' = Num (real (points (columns df) hiv_items r)) \<and>
     snd r' ''condom_use_freq'' =
       (if cell_isin [9, 99] (snd r ''p73'') then NA else snd r ''p73'') \<and>
     snd r' ''always_condom'' =
       (if cell_isin [9, 99] (snd r ''p73'') then NA
        else Num (if cell_eq 1 (snd r ''p73'') then 1 else 0)) \<and>
     snd r' ''ever_condom'' =
       (if cell_isin [9, 99] (snd r ''p73'') then NA
        else Num (if cell_isin [1, 2] (snd r ''p73'') then 1 else 0))"
  have A: "list_all2 ?RA (rows df) (rows d3)"
  proof (rule list_all2_trans[OF _ 2 3])
    fix a b c
    assume "?R2 a b" "?R3 b c"
    then show "?RA a c" by (simp add: unchanged_outside_def)
  qed
  let ?RB = "\<lambda>r r'. unchanged_outside {''hiv_knowledge_score'', ''condom_use_freq'',
       ''always_condom'', ''ever_condom'', ''condom_use_lbl'', ''partners_last_year'',
       ''multiple_partners''} r r' \<and>
     snd r' ''hiv_knowledge_score'' = Num (real (points (columns df) hiv_items r)) \<and>
     snd r' ''condom_use_freq'' =
       (if cell_isin [9, 99] (snd r ''p73'') then NA else snd r ''p73'') \<and>
     snd r' ''always_condom'' =
       (if cell_isin [9, 99] (snd r ''p73'') then NA
        else Num (if cell_eq 1 (snd r ''p73'') then 1 else 0)) \<and>
     snd r' ''ever_condom'' =
       (if cell_isin [9, 99] (snd r ''p73'') then NA
        else Num (if cell_isin [1, 2] (snd r ''p73'') then 1 else 0)) \<and>
     \<not> is_str (snd r ''p71'') \<and>
     snd r' ''partners_last_year'' =
       (if cell_eq 999 (snd r ''p71'') \<or> cell_gt 100 (snd r ''p71'') = Inr True
        then NA else snd r ''p71'')"
  have B: "list_all2 ?RB (rows df) (rows d4)"
  proof (rule list_all2_trans[OF _ A 4])
    fix a b c
    assume "?RA a b" "?R4 b c"
    then show "?RB a c" by (simp add: unchanged_outside_def)
  qed
  show ?thesis
  proof (rule list_all2_trans[OF _ B 57])
    fix a b c
    assume "?RB a b" "unchanged_outside {''any_sti'', ''hiv_diagnosis'',
       ''tested_hiv_12mo'', ''test_reason'', ''no_test_reason'', ''knows_prep'',
       ''edad_grupo_lbl''} b c"
    then show "derived_from (columns df) a c"
      by (simp add: unchanged_outside_def derived_from_def derived_names_def)
  qed
qed

lemma step5_sti_cols:
  "\<exists>d. step5_sti df = Inr d \<and>
     set (columns d) = set (columns df) \<union> {''any_sti'', ''hiv_diagnosis''}"
proof -
  obtain d1 where d1: "any_sti df = Inr d1" "columns d1 = add_column ''any_sti'' (columns df)"
    using any_sti_rows[of df] by blast
  obtain d where d: "hiv_diagnosis d1 = Inr d"
    "columns d = add_column ''hiv_diagnosis'' (columns d1)"
    using hiv_diagnosis_rows[of d1] by blast
  have "step5_sti df = Inr d" using d1(1) d(1) by (simp add: step5_sti_def)
  moreover have "set (columns d) = set (columns df) \<union> {''any_sti'', ''hiv_diagnosis''}"
    using d1(2) d(2) by auto
  ultimately show ?thesis by blast
qed

lemma step6_testing_cols:
  "\<exists>d. step6_testing df = Inr d \<and>
     set (columns d) = set (columns df) \<union>
       {''tested_hiv_12mo'', ''test_reason'', ''no_test_reason'', ''knows_prep''}"
proof -
  obtain d1 where d1: "indicator_of ''p208'' ''tested_hiv_12mo'' df = Inr d1"
    "columns d1 = add_column ''tested_hiv_12mo'' (columns df)"
    using indicator_of_rows[of "''p208''" "''tested_hiv_12mo''" df] by auto
  obtain d2 where d2: "reason_of ''p210'' ''test_reason'' d1 = Inr d2"
    "columns d2 = add_column ''test_reason'' (columns d1)"
    using reason_of_rows[of "''p210''" "''test_reason''" d1] by auto
  obtain d3 where d3: "reason_of ''p211'' ''no_test_reason'' d2 = Inr d3"
    "columns d3 = add_column ''no_test_reason'' (columns d2)"
    using reason_of_rows[of "''p211''" "''no_test_reason''" d2] by auto
  obtain d where d: "indicator_of ''p213'' ''knows_prep'' d3 = Inr d"
    "columns d = add_column ''knows_prep'' (columns d3)"
    using indicator_of_rows[of "''p213''" "''knows_prep''" d3] by auto
  have "step6_testing df = Inr d" using d1(1) d2(1) d3(1) d(1) by (simp add: step6_testing_def)
  moreover have "set (columns d) = set (columns df) \<union>
       {''tested_hiv_12mo'', ''test_reason'', ''no_test_reason'', ''knows_prep''}"
    using d1(2) d2(2) d3(2) d(2) by auto
  ultimately show ?thesis by blast
qed

lemma list_all2_unchanged_set:
  assumes "list_all2 (unchanged_outside W) xs ys" "c \<notin> W" "\<forall>r\<in>set xs. P (snd r c)"
  shows "\<forall>r\<in>set ys. P (snd r c)"
proof
  fix r assume "r \<in> set ys"
  then obtain i where i: "i < length ys" "ys ! i = r" by (auto simp: in_set_conv_nth)
  have len: "length xs = length ys" using assms(1) by (rule list_all2_lengthD)
  have "unchanged_outside W (xs ! i) (ys ! i)"
    using assms(1) i(1) len by (simp add: list_all2_nthD2)
  then have eq: "snd (ys ! i) c = snd (xs ! i) c"
    using assms(2) unfolding unchanged_outside_def by blast
  have "xs ! i \<in> set xs" using i(1) len by simp
  then have "P (snd (xs ! i) c)" using assms(3) by blast
  then show "P (snd r c)" unfolding i(2)[symmetric] eq .
qed

lemma step2_knowledge_ok:
  "\<exists>d. step2_knowledge df = Inr d \<and>
     set (columns d) = insert ''hiv_knowledge_score'' (set (columns df)) \<and>
     list_all2 (unchanged_outside {''hiv_knowledge_score''}) (rows df) (rows d)"
  unfolding step2_knowledge_eq
  by (simp add: unchanged_update)

lemma step3_condom_ok:
  assumes "''p73'' \<in> set (columns df)"
  shows "\<exists>d. step3_condom df = Inr d \<and>
     set (columns d) = set (columns df) \<union>
       {''condom_use_freq'', ''always_condom'', ''ever_condom'', ''condom_use_lbl''} \<and>
     list_all2 (unchanged_outside
       {''condom_use_freq'', ''always_condom'', ''ever_condom'', ''condom_use_lbl''})
       (rows df) (rows d)"
  unfolding step3_condom_eq
  apply (simp add: assms)
  apply (intro conjI)
   apply blast
  apply (rule list_all2_map_same)
  apply (simp add: unchanged_outside_def)
  done

lemma construct_total:
  assumes "''p73'' \<in> set (columns df)" "''p71'' \<in> set (columns df)"
    and "\<forall>r\<in>set (rows df). \<not> is_str (snd r ''p71'')"
    and "''edad_grupo_lbl'' \<in> set (columns df) \<or> ''edad_grupo'' \<in> set (columns df)"
  shows "\<exists>d. construct_variables df = Inr d"
proof -
  obtain d2 where s2: "step2_knowledge df = Inr d2"
    and c2: "set (columns d2) = insert ''hiv_knowledge_score'' (set (columns df))"
    and u2: "list_all2 (unchanged_outside {''hiv_knowledge_score''}) (rows df) (rows d2)"
    using step2_knowledge_ok[of df] by blast
  have "''p73'' \<in> set (columns d2)" using assms(1) c2 by simp
  from step3_condom_ok[OF this]
  obtain d3 where s3: "step3_condom d2 = Inr d3"
    and c3: "set (columns d3) = set (columns d2) \<union>
       {''condom_use_freq'', ''always_condom'', ''ever_condom'', ''condom_use_lbl''}"
    and u3: "list_all2 (unchanged_outside
       {''condom_use_freq'', ''always_condom'', ''ever_condom'', ''condom_use_lbl''})
       (rows d2) (rows d3)"
    by blast
  have r2: "\<forall>r\<in>set (rows d2). \<not> is_str (snd r ''p71'')"
    by (rule list_all2_unchanged_set[OF u2 _ assms(3)]) simp
  have r3: "\<forall>r\<in>set (rows d3). \<not> is_str (snd r ''p71'')"
    by (rule list_all2_unchanged_set[OF u3 _ r2]) simp
  have "''p71'' \<in> set (columns d3)" using c3 c2 assms(2) by simp
  from step4_partners_ok[OF this] r3
  obtain d4 where s4: "step4_partners d3 = Inr d4"
    and c4: "columns d4 = add_column ''multiple_partners''
                           (add_column ''partners_last_year'' (columns d3))" by blast
  obtain d5 where s5: "step5_sti d4 = Inr d5"
    and c5: "set (columns d5) = set (columns d4) \<union> {''any_sti'', ''hiv_diagnosis''}"
    using step5_sti_cols[of d4] by blast
  obtain d6 where s6: "step6_testing d5 = Inr d6"
    and c6: "set (columns d6) = set (columns d5) \<union>
       {''tested_hiv_12mo'', ''test_reason'', ''no_test_reason'', ''knows_prep''}"
    using step6_testing_cols[of d5] by blast
  have "''edad_grupo_lbl'' \<in> set (columns d6) \<or> ''edad_grupo'' \<in> set (columns d6)"
    using assms(4) c6 c5 c4 c3 c2 by auto
  then have "\<exists>d. step7_labels d6 = Inr d"
    unfolding step7_labels_eq by (cases "''edad_grupo_lbl'' \<in> set (columns d6)") simp_all
  then obtain d where s7: "step7_labels d6 = Inr d" by blast
  show ?thesis using s2 s3 s4 s5 s6 s7 by (simp add: construct_variables_def)
qed


lemma construct_nth:
  assumes "construct_variables df = Inr d" "i < length (rows df)"
  shows "length (rows d) = length (rows df)"
    and "derived_from (columns df) (rows df ! i) (rows d ! i)"
proof -
  have l: "list_all2 (derived_from (columns df)) (rows df) (rows d)"
    by (rule construct_rows[OF assms(1)])
  show "length (rows d) = length (rows df)" using l by (simp add: list_all2_lengthD)
  show "derived_from (columns df) (rows df ! i) (rows d ! i)"
    using l assms(2) by (rule list_all2_nthD)
qed

lemma derived_from_index: "derived_from cs r r' \<Longrightarrow> fst r' = fst r"
  by (simp add: derived_from_def unchanged_outside_def)

lemma cell_isin_sentinel: "cell_isin [9, 99] c \<longleftrightarrow> c = Num 9 \<or> c = Num 99"
  by (cases c) auto

lemma derived_from_always:
  assumes "derived_from cs r r'"
  shows "snd r' ''always_condom'' =
     (if snd r ''p73'' = Num 9 \<or> snd r ''p73'' = Num 99 then NA
      else if snd r ''p73'' = Num 1 then Num 1 else Num 0)"
proof -
  have "snd r' ''always_condom'' = (if cell_isin [9, 99] (snd r ''p73'') then NA
        else Num (if cell_eq 1 (snd r ''p73'') then 1 else 0))"
    using assms unfolding derived_from_def by blast
  then show ?thesis unfolding cell_isin_sentinel cell_eq_iff by simp
qed

lemma derived_from_ever:
  assumes "derived_from cs r r'"
  shows "snd r' ''ever_condom'' =
     (if snd r ''p73'' = Num 9 \<or> snd r ''p73'' = Num 99 then NA
      else if snd r ''p73'' = Num 1 \<or> snd r ''p73'' = Num 2 then Num 1 else Num 0)"
proof -
  have e: "snd r' ''ever_condom'' = (if cell_isin [9, 99] (snd r ''p73'') then NA
        else Num (if cell_isin [1, 2] (snd r ''p73'') then 1 else 0))"
    using assms unfolding derived_from_def by blast
  have "cell_isin [1, 2] (snd r ''p73'') \<longleftrightarrow> snd r ''p73'' = Num 1 \<or> snd r ''p73'' = Num 2"
    by (cases "snd r ''p73''") auto
  then show ?thesis using e unfolding cell_isin_sentinel by simp
qed

lemma derived_from_freq:
  "derived_from cs r r' \<Longrightarrow> snd r' ''condom_use_freq'' =
       (if cell_isin [9, 99] (snd r ''p73'') then NA else snd r ''p73'')"
  unfolding derived_from_def by blast

text \<open>
  C1. For every respondent, always_condom is undefined exactly when the raw condom-use
  code p73 is 9 or 99; otherwise it is 1.0 when the raw code is 1 and 0.0 for any other
  raw cell. Row \<open>i\<close> of the constructed table is the respondent of row \<open>i\<close> of the input.
  With the raw code 9, condom_use_freq, always_condom and ever_condom are all undefined.
\<close>

theorem always_condom_undefined_iff_sentinel:
  assumes "construct_variables df = Inr d" and "i < length (rows df)"
  shows "length (rows d) = length (rows df) \<and> fst (rows d ! i) = fst (rows df ! i) \<and>
    (let raw = snd (rows df ! i) ''p73''; v = snd (rows d ! i) ''always_condom'' in
       (isna v \<longleftrightarrow> raw = Num 9 \<or> raw = Num 99) \<and>
       (raw \<noteq> Num 9 \<and> raw \<noteq> Num 99 \<longrightarrow> v = (if raw = Num 1 then Num 1 else Num 0))) \<and>
    (snd (rows df ! i) ''p73'' = Num 9 \<longrightarrow>
       isna (snd (rows d ! i) ''condom_use_freq'') \<and>
       isna (snd (rows d ! i) ''always_condom'') \<and>
       isna (snd (rows d ! i) ''ever_condom''))"
proof -
  note n = construct_nth[OF assms]
  show ?thesis
    using n(1) derived_from_index[OF n(2)] derived_from_always[OF n(2)]
      derived_from_ever[OF n(2)] derived_from_freq[OF n(2)]
    by (simp add: Let_def cell_isin_sentinel)
qed

lemma example_table_constructs: "\<exists>d. construct_variables example_table = Inr d"
  by (rule construct_total) (simp_all add: example_table_def)

theorem always_condom_undefined_iff_sentinel_witness:
  "\<exists>d. construct_variables example_table = Inr d \<and> length (rows d) = 3 \<and>
     snd (rows d ! 0) ''always_condom'' = Num 1 \<and>
     isna (snd (rows d ! 1) ''always_condom'') \<and>
     isna (snd (rows d ! 1) ''condom_use_freq'') \<and>
     isna (snd (rows d ! 1) ''ever_condom'') \<and>
     snd (rows d ! 2) ''always_condom'' = Num 0"
proof -
  obtain d where d: "construct_variables example_table = Inr d"
    using example_table_constructs by blast
  have l: "length (rows example_table) = 3" by (simp add: example_table_def)
  have "0 < length (rows example_table)" "1 < length (rows example_table)"
    "2 < length (rows example_table)" by (simp_all add: l)
  from always_condom_undefined_iff_sentinel[OF d this(1)]
    always_condom_undefined_iff_sentinel[OF d this(2)]
    always_condom_undefined_iff_sentinel[OF d this(3)]
  have "length (rows d) = 3 \<and>
     snd (rows d ! 0) ''always_condom'' = Num 1 \<and>
     isna (snd (rows d ! 1) ''always_condom'') \<and>
     isna (snd (rows d ! 1) ''condom_use_freq'') \<and>
     isna (snd (rows d ! 1) ''ever_condom'') \<and>
     snd (rows d ! 2) ''always_condom'' = Num 0"
    by (simp add: example_table_def Let_def)
  then show ?thesis using d by blast
qed

text \<open>
  C9. For every respondent whose raw condom-use code p73 is missing, always_condom and
  ever_condom are both defined and equal 0.0.
\<close>

theorem missing_condom_code_scored_zero:
  assumes "construct_variables df = Inr d" and "i < length (rows df)"
    and "isna (snd (rows df ! i) ''p73'')"
  shows "snd (rows d ! i) ''always_condom'' = Num 0 \<and> snd (rows d ! i) ''ever_condom'' = Num 0"
proof -
  note n = construct_nth[OF assms(1,2)]
  have "snd (rows df ! i) ''p73'' = NA" using assms(3) by (cases "snd (rows df ! i) ''p73''") auto
  then show ?thesis
    using derived_from_always[OF n(2)] derived_from_ever[OF n(2)] by simp
qed

theorem missing_condom_code_scored_zero_witness:
  "isna (snd (rows example_table ! 2) ''p73'') \<and>
   (\<exists>d. construct_variables example_table = Inr d \<and>
     snd (rows d ! 2) ''always_condom'' = Num 0 \<and> snd (rows d ! 2) ''ever_condom'' = Num 0)"
proof -
  obtain d where d: "construct_variables example_table = Inr d"
    using example_table_constructs by blast
  have l: "2 < length (rows example_table)" by (simp add: example_table_def)
  have m: "isna (snd (rows example_table ! 2) ''p73'')" by (simp add: example_table_def)
  from missing_condom_code_scored_zero[OF d l m] m d show ?thesis by blast
qed

lemma derived_from_score:
  "derived_from cs r r' \<Longrightarrow> snd r' ''hiv_knowledge_score'' = Num (real (points cs hiv_items r))"
  unfolding derived_from_def by blast

text \<open>
  C2. The knowledge score is always computed and is a number from 0 to 6: the count of
  the six items that are columns of the table and whose cell equals the item's correct
  code (a missing cell, a sentinel or any other code counts 0, an absent column is
  skipped). The later steps of the constructor leave the score as step 2 computed it.
\<close>

theorem hiv_knowledge_score_defined_0_to_6:
  "\<exists>d2. step2_knowledge df = Inr d2 \<and> length (rows d2) = length (rows df) \<and>
     (\<forall>i<length (rows df).
        snd (rows d2 ! i) ''hiv_knowledge_score''
          = Num (real (points (columns df) hiv_items (rows df ! i))) \<and>
        points (columns df) hiv_items (rows df ! i) \<le> 6) \<and>
     (\<forall>d. construct_variables df = Inr d \<longrightarrow>
        (\<forall>i<length (rows df).
           snd (rows d ! i) ''hiv_knowledge_score''
             = snd (rows d2 ! i) ''hiv_knowledge_score''))"
proof -
  let ?d2 = "\<lparr>columns = add_column ''hiv_knowledge_score'' (columns df),
     rows = map (\<lambda>r. (fst r, (snd r)(''hiv_knowledge_score'' :=
                Num (real (points (columns df) hiv_items r))))) (rows df)\<rparr>"
  have s: "step2_knowledge df = Inr ?d2" by (rule step2_knowledge_eq)
  have l: "length (rows ?d2) = length (rows df)" by simp
  have v: "\<forall>i<length (rows df).
        snd (rows ?d2 ! i) ''hiv_knowledge_score''
          = Num (real (points (columns df) hiv_items (rows df ! i))) \<and>
        points (columns df) hiv_items (rows df ! i) \<le> 6"
  proof (intro allI impI conjI)
    fix i assume "i < length (rows df)"
    then show "snd (rows ?d2 ! i) ''hiv_knowledge_score''
          = Num (real (points (columns df) hiv_items (rows df ! i)))" by simp
    have "points (columns df) hiv_items (rows df ! i) \<le> length hiv_items" by (rule points_le)
    then show "points (columns df) hiv_items (rows df ! i) \<le> 6" by (simp add: hiv_items_def)
  qed
  have k: "\<forall>d. construct_variables df = Inr d \<longrightarrow>
        (\<forall>i<length (rows df).
           snd (rows d ! i) ''hiv_knowledge_score''
             = snd (rows ?d2 ! i) ''hiv_knowledge_score'')"
  proof (intro allI impI)
    fix d i assume d: "construct_variables df = Inr d" and i: "i < length (rows df)"
    from derived_from_score[OF construct_nth(2)[OF d i]] i
    show "snd (rows d ! i) ''hiv_knowledge_score''
             = snd (rows ?d2 ! i) ''hiv_knowledge_score''" by simp
  qed
  show ?thesis using s l v k by blast
qed

theorem hiv_knowledge_score_defined_0_to_6_witness:
  "(\<exists>d2. step2_knowledge knowledge_table = Inr d2 \<and>
     snd (rows d2 ! 0) ''hiv_knowledge_score'' = Num 6 \<and>
     snd (rows d2 ! 1) ''hiv_knowledge_score'' = Num 1) \<and>
   (\<exists>d. construct_variables example_table = Inr d \<and>
     snd (rows d ! 0) ''hiv_knowledge_score'' = Num 2 \<and>
     snd (rows d ! 1) ''hiv_knowledge_score'' = Num 0 \<and>
     snd (rows d ! 2) ''hiv_knowledge_score'' = Num 1)"
proof -
  from hiv_knowledge_score_defined_0_to_6[of knowledge_table]
  obtain d2 where d2: "step2_knowledge knowledge_table = Inr d2"
    and v: "\<forall>i<length (rows knowledge_table).
        snd (rows d2 ! i) ''hiv_knowledge_score''
          = Num (real (points (columns knowledge_table) hiv_items (rows knowledge_table ! i)))"
    by blast
  have "snd (rows d2 ! 0) ''hiv_knowledge_score'' = Num 6"
    using v[rule_format, of 0] by (simp add: knowledge_table_def points_def hiv_items_def)
  moreover have "snd (rows d2 ! 1) ''hiv_knowledge_score'' = Num 1"
    using v[rule_format, of 1] by (simp add: knowledge_table_def points_def hiv_items_def)
  ultimately have first: "\<exists>d2. step2_knowledge knowledge_table = Inr d2 \<and>
     snd (rows d2 ! 0) ''hiv_knowledge_score'' = Num 6 \<and>
     snd (rows d2 ! 1) ''hiv_knowledge_score'' = Num 1" using d2 by blast
  obtain d where d: "construct_variables example_table = Inr d"
    using example_table_constructs by blast
  from hiv_knowledge_score_defined_0_to_6[of example_table]
  obtain e2 :: frame where w: "\<forall>i<length (rows example_table).
        snd (rows e2 ! i) ''hiv_knowledge_score''
          = Num (real (points (columns example_table) hiv_items (rows example_table ! i))) \<and>
        points (columns example_table) hiv_items (rows example_table ! i) \<le> 6"
    and k: "\<forall>d. construct_variables example_table = Inr d \<longrightarrow>
        (\<forall>i<length (rows example_table).
           snd (rows d ! i) ''hiv_knowledge_score''
             = snd (rows e2 ! i) ''hiv_knowledge_score'')"
    by blast
  have l: "length (rows example_table) = 3" by (simp add: example_table_def)
  have "snd (rows d ! 0) ''hiv_knowledge_score'' = Num 2"
    using k[rule_format, OF d, of 0] w[rule_format, of 0] l
    by (simp add: example_table_def points_def hiv_items_def)
  moreover have "snd (rows d ! 1) ''hiv_knowledge_score'' = Num 0"
    using k[rule_format, OF d, of 1] w[rule_format, of 1] l
    by (simp add: example_table_def points_def hiv_items_def)
  moreover have "snd (rows d ! 2) ''hiv_knowledge_score'' = Num 1"
    using k[rule_format, OF d, of 2] w[rule_format, of 2] l
    by (simp add: example_table_def points_def hiv_items_def)
  ultimately show ?thesis using first d by blast
qed

lemma filter_rows_map_eq:
  "filter_rows (map p (rows df)) df = df\<lparr>rows := filter p (rows df)\<rparr>"
  by (simp add: filter_rows_def zip_same comp_def)

lemma apply_filter_ok:
  assumes "needs f \<in> set (columns df)"
    and "\<forall>r\<in>set (rows df). \<not> is_str (snd r ''partners_last_year'')"
  shows "apply_filter f df = Inr (df\<lparr>rows := filter (keeps f) (rows df)\<rparr>)"
proof (cases f)
  case Active
  have "series_gt (map (\<lambda>r. snd r ''partners_last_year'') (rows df)) 0
          = Inr (map (\<lambda>r. cell_gt 0 (snd r ''partners_last_year'') = Inr True) (rows df))"
    using assms(2) by (simp add: series_gt_def try_map_cell_gt)
  moreover have "keeps Active = (\<lambda>r. cell_gt 0 (snd r ''partners_last_year'') = Inr True)"
    by (simp add: keeps_def fun_eq_iff)
  ultimately show ?thesis using assms(1) Active
    by (simp add: needs_def getcol_present filter_rows_map_eq)
next
  case HasCondom
  have "keeps HasCondom = (\<lambda>r. notna (snd r ''condom_use_freq''))"
    by (simp add: keeps_def fun_eq_iff)
  then show ?thesis using assms(1) HasCondom
    by (simp add: needs_def getcol_present series_defs filter_rows_map_eq comp_def)
next
  case HasAge
  have "keeps HasAge = (\<lambda>r. notna (snd r ''edad_grupo''))"
    by (simp add: keeps_def fun_eq_iff)
  then show ?thesis using assms(1) HasAge
    by (simp add: needs_def getcol_present series_defs filter_rows_map_eq comp_def)
qed

lemma apply_filter_Inr:
  assumes "apply_filter f df = Inr d"
  shows "needs f \<in> set (columns df)"
    and "f = Active \<Longrightarrow> \<forall>r\<in>set (rows df). \<not> is_str (snd r ''partners_last_year'')"
    and "columns d = columns df"
proof -
  show c: "needs f \<in> set (columns df)"
  proof (rule ccontr)
    assume "needs f \<notin> set (columns df)"
    then have "apply_filter f df = Inl (KeyError (needs f))"
      by (cases f) (simp_all add: needs_def getcol_absent)
    then show False using assms by simp
  qed
  show "f = Active \<Longrightarrow> \<forall>r\<in>set (rows df). \<not> is_str (snd r ''partners_last_year'')"
  proof (rule ccontr)
    assume f: "f = Active" and "\<not> (\<forall>r\<in>set (rows df). \<not> is_str (snd r ''partners_last_year''))"
    then have "\<exists>r\<in>set (rows df). is_str (snd r ''partners_last_year'')" by blast
    then have "series_gt (map (\<lambda>r. snd r ''partners_last_year'') (rows df)) 0 = Inl TypeError"
      by (simp add: series_gt_def try_map_cell_gt)
    then have "apply_filter f df = Inl TypeError"
      using c f by (simp add: needs_def getcol_present)
    then show False using assms by simp
  qed
  show "columns d = columns df"
    using assms c
    by (cases f) (auto simp: needs_def getcol_present bind_err_eq_Inr)
qed

lemma apply_filters_ok:
  assumes "\<forall>f\<in>set fs. needs f \<in> set (columns df)"
    and "\<forall>r\<in>set (rows df). \<not> is_str (snd r ''partners_last_year'')"
  shows "apply_filters fs df = Inr (df\<lparr>rows := filter (\<lambda>r. \<forall>f\<in>set fs. keeps f r) (rows df)\<rparr>)"
  using assms
proof (induction fs arbitrary: df)
  case Nil
  then show ?case by simp
next
  case (Cons f fs)
  let ?d = "df\<lparr>rows := filter (keeps f) (rows df)\<rparr>"
  have a: "apply_filter f df = Inr ?d"
    using Cons.prems by (simp add: apply_filter_ok)
  have c: "\<forall>g\<in>set fs. needs g \<in> set (columns ?d)" using Cons.prems(1) by simp
  have r: "\<forall>r\<in>set (rows ?d). \<not> is_str (snd r ''partners_last_year'')"
    using Cons.prems(2) by simp
  have "apply_filters fs ?d
      = Inr (?d\<lparr>rows := filter (\<lambda>r. \<forall>f\<in>set fs. keeps f r) (rows ?d)\<rparr>)"
    by (rule Cons.IH[OF c r])
  moreover have "filter (\<lambda>r. \<forall>f\<in>set fs. keeps f r) (filter (keeps f) (rows df))
      = filter (\<lambda>r. \<forall>g\<in>set (f # fs). keeps g r) (rows df)"
    by (simp add: conj_commute)
  ultimately show ?case using a by simp
qed

lemma df_analysis_as_filters: "df_analysis df = apply_filters [Active, HasCondom, HasAge] df"
  by (simp add: df_analysis_def bind_err_def split: sum.splits)

lemma df_analysis_Inr:
  assumes "df_analysis df = Inr out"
  shows "\<forall>f. needs f \<in> set (columns df)"
    and "\<forall>r\<in>set (rows df). \<not> is_str (snd r ''partners_last_year'')"
proof -
  obtain d1 d2 where s: "apply_filter Active df = Inr d1" "apply_filter HasCondom d1 = Inr d2"
    "apply_filter HasAge d2 = Inr out"
    using assms unfolding df_analysis_def bind_err_eq_Inr by blast
  have 1: "needs Active \<in> set (columns df)" "columns d1 = columns df"
    using apply_filter_Inr(1,3)[OF s(1)] by simp_all
  have 2: "needs HasCondom \<in> set (columns df)" "columns d2 = columns df"
    using apply_filter_Inr(1,3)[OF s(2)] 1(2) by simp_all
  have 3: "needs HasAge \<in> set (columns df)"
    using apply_filter_Inr(1)[OF s(3)] 2(2) by simp
  show "\<forall>f. needs f \<in> set (columns df)"
  proof
    fix f show "needs f \<in> set (columns df)" using 1(1) 2(1) 3 by (cases f) simp_all
  qed
  show "\<forall>r\<in>set (rows df). \<not> is_str (snd r ''partners_last_year'')"
    using apply_filter_Inr(2)[OF s(1)] by simp
qed

lemma excluded_row:
  assumes "list_all2 (\<lambda>r r'. fst r' = fst r) xs ys" and "distinct (map fst xs)"
    and "i < length xs" and "\<not> P (ys ! i)"
  shows "fst (xs ! i) \<notin> fst ` set (filter P ys)"
proof
  assume "fst (xs ! i) \<in> fst ` set (filter P ys)"
  then obtain r' where r': "r' \<in> set ys" "P r'" "fst r' = fst (xs ! i)" by auto
  then obtain j where j: "j < length ys" "ys ! j = r'" by (auto simp: in_set_conv_nth)
  have len: "length xs = length ys" using assms(1) by (rule list_all2_lengthD)
  have "fst (ys ! j) = fst (xs ! j)" using list_all2_nthD2[OF assms(1) j(1)] by simp
  then have "map fst xs ! j = map fst xs ! i" using r'(3) j len assms(3) by simp
  moreover have "j < length (map fst xs)" "i < length (map fst xs)"
    using j(1) len assms(3) by simp_all
  ultimately have "j = i" using assms(2) nth_eq_iff_index_eq by blast
  then show False using j(2) r'(2) assms(4) by simp
qed

lemma df_analysis_rows:
  assumes "df_analysis d = Inr out"
  shows "rows out = filter (\<lambda>r. \<forall>f\<in>set [Active, HasCondom, HasAge]. keeps f r) (rows d)"
proof -
  note ok = df_analysis_Inr[OF assms]
  have b: "\<forall>f\<in>set [Active, HasCondom, HasAge]. needs f \<in> set (columns d)"
    using ok(1) by blast
  from apply_filters_ok[OF b ok(2)] assms show ?thesis
    unfolding df_analysis_as_filters by auto
qed

lemma construct_indices:
  assumes "construct_variables df = Inr d"
  shows "list_all2 (\<lambda>r r'. fst r' = fst r) (rows df) (rows d)"
  by (rule list_all2_mono[OF construct_rows[OF assms]]) (rule derived_from_index)

lemma derived_from_partners:
  "derived_from cs r r' \<Longrightarrow> snd r' ''partners_last_year'' =
       (if cell_eq 999 (snd r ''p71'') \<or> cell_gt 100 (snd r ''p71'') = Inr True
        then NA else snd r ''p71'')"
  unfolding derived_from_def by blast

text \<open>
  C7. A respondent whose raw partner count p71 is 999, or any value above 100, has
  partners_last_year undefined and is not in the analysis sample: no row of the sample
  carries the respondent's index label.
\<close>

theorem extreme_partner_count_excluded:
  assumes "prepare df = Inr out" and "distinct (map fst (rows df))"
    and "i < length (rows df)"
    and "snd (rows df ! i) ''p71'' = Num 999 \<or> cell_gt 100 (snd (rows df ! i) ''p71'') = Inr True"
  shows "\<exists>d. construct_variables df = Inr d \<and> df_analysis d = Inr out \<and>
     fst (rows d ! i) = fst (rows df ! i) \<and>
     isna (snd (rows d ! i) ''partners_last_year'') \<and>
     fst (rows df ! i) \<notin> fst ` set (rows out)"
proof -
  obtain d where d: "construct_variables df = Inr d" and o: "df_analysis d = Inr out"
    using assms(1) unfolding prepare_def bind_err_eq_Inr by blast
  note n = construct_nth[OF d assms(3)]
  have na: "snd (rows d ! i) ''partners_last_year'' = NA"
    using derived_from_partners[OF n(2)] assms(4) by (auto simp: cell_eq_iff)
  then have "\<not> keeps Active (rows d ! i)" by (simp add: keeps_def)
  then have "\<not> (\<forall>f\<in>set [Active, HasCondom, HasAge]. keeps f (rows d ! i))" by simp
  from excluded_row[where P = "\<lambda>r. \<forall>f\<in>set [Active, HasCondom, HasAge]. keeps f r",
      OF construct_indices[OF d] assms(2,3) this]
  have "fst (rows df ! i) \<notin> fst ` set (rows out)"
    unfolding df_analysis_rows[OF o] .
  then show ?thesis using d o na derived_from_index[OF n(2)] by auto
qed

lemma construct_columns:
  assumes "construct_variables df = Inr d"
  shows "set (columns d) = set (columns df) \<union> derived_names"
    and "''p73'' \<in> set (columns df)" and "''p71'' \<in> set (columns df)"
    and "''edad_grupo_lbl'' \<in> set (columns df) \<or> ''edad_grupo'' \<in> set (columns df)"
proof -
  obtain d2 d3 d4 d5 d6 where s: "step2_knowledge df = Inr d2" "step3_condom d2 = Inr d3"
    "step4_partners d3 = Inr d4" "step5_sti d4 = Inr d5" "step6_testing d5 = Inr d6"
    "step7_labels d6 = Inr d"
    using assms unfolding construct_variables_def bind_err_eq_Inr by blast
  have c2: "set (columns d2) = insert ''hiv_knowledge_score'' (set (columns df))"
    using step2_knowledge_ok[of df] s(1) by auto
  have p73: "''p73'' \<in> set (columns d2)"
    using s(2) unfolding step3_condom_eq by (simp split: if_splits)
  have c3: "set (columns d3) = set (columns d2) \<union>
       {''condom_use_freq'', ''always_condom'', ''ever_condom'', ''condom_use_lbl''}"
    using step3_condom_ok[OF p73] s(2) by auto
  note ok4 = step4_partners_Inr[OF s(3)]
  have p71: "''p71'' \<in> set (columns d3)" using ok4 by blast
  have r3: "\<And>r. r \<in> set (rows d3) \<Longrightarrow> \<not> is_str (snd r ''p71'')" using ok4 by blast
  have c4: "set (columns d4) = set (columns d3) \<union> {''partners_last_year'', ''multiple_partners''}"
    using step4_partners_ok[OF p71 r3] s(3) by auto
  have c5: "set (columns d5) = set (columns d4) \<union> {''any_sti'', ''hiv_diagnosis''}"
    using step5_sti_cols[of d4] s(4) by auto
  have c6: "set (columns d6) = set (columns d5) \<union>
       {''tested_hiv_12mo'', ''test_reason'', ''no_test_reason'', ''knows_prep''}"
    using step6_testing_cols[of d5] s(5) by auto
  have l6: "''edad_grupo_lbl'' \<in> set (columns d6) \<or> ''edad_grupo'' \<in> set (columns d6)"
    using s(6) unfolding step7_labels_eq by (simp split: if_splits)
  have c7: "set (columns d) = insert ''edad_grupo_lbl'' (set (columns d6))"
    using s(6) unfolding step7_labels_eq by (auto split: if_splits)
  show "''p73'' \<in> set (columns df)" using p73 c2 by simp
  show "''p71'' \<in> set (columns df)" using p71 c3 c2 by simp
  show "''edad_grupo_lbl'' \<in> set (columns df) \<or> ''edad_grupo'' \<in> set (columns df)"
    using l6 c6 c5 c4 c3 c2 by simp
  show "set (columns d) = set (columns df) \<union> derived_names"
    unfolding c7 c6 c5 c4 c3 c2 derived_names_def
    by (simp add: insert_commute)
qed


lemma derived_from_unchanged:
  "derived_from cs r r' \<Longrightarrow> c \<notin> derived_names \<Longrightarrow> snd r' c = snd r c"
  unfolding derived_from_def unchanged_outside_def by blast

lemma derived_from_partners_not_str:
  assumes "derived_from cs r r'"
  shows "\<not> is_str (snd r' ''partners_last_year'')"
proof -
  have "\<not> is_str (snd r ''p71'')" using assms unfolding derived_from_def by blast
  then show ?thesis unfolding derived_from_partners[OF assms] by simp
qed

lemma construct_partners_not_str:
  assumes "construct_variables df = Inr d"
  shows "\<forall>r\<in>set (rows d). \<not> is_str (snd r ''partners_last_year'')"
proof
  fix r assume "r \<in> set (rows d)"
  then obtain j where j: "j < length (rows d)" "rows d ! j = r" by (auto simp: in_set_conv_nth)
  have "derived_from (columns df) (rows df ! j) (rows d ! j)"
    using list_all2_nthD2[OF construct_rows[OF assms] j(1)] .
  from derived_from_partners_not_str[OF this] j(2)
  show "\<not> is_str (snd r ''partners_last_year'')" by simp
qed

lemma prepare_total:
  assumes "''p73'' \<in> set (columns df)" "''p71'' \<in> set (columns df)"
    and "\<forall>r\<in>set (rows df). \<not> is_str (snd r ''p71'')"
    and "''edad_grupo'' \<in> set (columns df)"
  shows "\<exists>out. prepare df = Inr out"
proof -
  obtain d where d: "construct_variables df = Inr d"
    using construct_total[OF assms(1,2,3)] assms(4) by blast
  have c: "set (columns d) = set (columns df) \<union> derived_names"
    by (rule construct_columns(1)[OF d])
  have n: "\<forall>f\<in>set [Active, HasCondom, HasAge]. needs f \<in> set (columns d)"
    unfolding c using assms(4) by (simp add: needs_def derived_names_def)
  from apply_filters_ok[OF n construct_partners_not_str[OF d]]
  have "\<exists>out. df_analysis d = Inr out" unfolding df_analysis_as_filters by blast
  then show ?thesis using d by (auto simp: prepare_def)
qed

theorem extreme_partner_count_excluded_witness:
  "distinct (map fst (rows example_table)) \<and>
   snd (rows example_table ! 2) ''p71'' = Num 999 \<and>
   (\<exists>out d. prepare example_table = Inr out \<and> construct_variables example_table = Inr d \<and>
      isna (snd (rows d ! 2) ''partners_last_year'') \<and>
      fst (rows example_table ! 2) \<notin> fst ` set (rows out))"
proof -
  obtain out where out: "prepare example_table = Inr out"
    using prepare_total[of example_table] by (auto simp: example_table_def)
  have a: "distinct (map fst (rows example_table))" by (simp add: example_table_def)
  have b: "2 < length (rows example_table)" by (simp add: example_table_def)
  have c: "snd (rows example_table ! 2) ''p71'' = Num 999" by (simp add: example_table_def)
  then have c': "snd (rows example_table ! 2) ''p71'' = Num 999 \<or>
     cell_gt 100 (snd (rows example_table ! 2) ''p71'') = Inr True" by blast
  from extreme_partner_count_excluded[OF out a b c'] out a c show ?thesis by blast
qed

lemma apply_filters_no_age:
  assumes "''partners_last_year'' \<in> set (columns df)" "''condom_use_freq'' \<in> set (columns df)"
    and "''edad_grupo'' \<notin> set (columns df)"
    and "\<forall>r\<in>set (rows df). \<not> is_str (snd r ''partners_last_year'')"
    and "HasAge \<in> set fs"
  shows "apply_filters fs df = Inl (KeyError ''edad_grupo'')"
  using assms
proof (induction fs arbitrary: df)
  case Nil
  then show ?case by simp
next
  case (Cons f fs)
  show ?case
  proof (cases "f = HasAge")
    case True
    then show ?thesis using Cons.prems(3) by (simp add: getcol_absent)
  next
    case False
    then have n: "needs f \<in> set (columns df)"
      using Cons.prems(1,2) by (cases f) (simp_all add: needs_def)
    let ?d = "df\<lparr>rows := filter (keeps f) (rows df)\<rparr>"
    have a: "apply_filter f df = Inr ?d" by (rule apply_filter_ok[OF n Cons.prems(4)])
    have h: "HasAge \<in> set fs" using Cons.prems(5) False by auto
    have "apply_filters fs ?d = Inl (KeyError ''edad_grupo'')"
      by (rule Cons.IH) (use Cons.prems h in simp_all)
    then show ?thesis using a by simp
  qed
qed

lemma constructed_filters_any_order:
  assumes "construct_variables raw = Inr df" and "set fs = {Active, HasCondom, HasAge}"
  shows "apply_filters fs df = df_analysis df"
proof -
  have c: "set (columns df) = set (columns raw) \<union> derived_names"
    by (rule construct_columns(1)[OF assms(1)])
  have p: "''partners_last_year'' \<in> set (columns df)" "''condom_use_freq'' \<in> set (columns df)"
    unfolding c by (simp_all add: derived_names_def)
  note s = construct_partners_not_str[OF assms(1)]
  show ?thesis
  proof (cases "''edad_grupo'' \<in> set (columns df)")
    case True
    then have n: "needs f \<in> set (columns df)" for f
      using p by (cases f) (simp_all add: needs_def)
    have a: "\<forall>f\<in>set fs. needs f \<in> set (columns df)" using n by blast
    have b: "\<forall>f\<in>set [Active, HasCondom, HasAge]. needs f \<in> set (columns df)" using n by blast
    have e: "set [Active, HasCondom, HasAge] = set fs" using assms(2) by simp
    show ?thesis
      unfolding df_analysis_as_filters apply_filters_ok[OF a s] apply_filters_ok[OF b s] e ..
  next
    case False
    have 1: "apply_filters fs df = Inl (KeyError ''edad_grupo'')"
      by (rule apply_filters_no_age[OF p False s]) (simp add: assms(2))
    have 2: "apply_filters [Active, HasCondom, HasAge] df = Inl (KeyError ''edad_grupo'')"
      by (rule apply_filters_no_age[OF p False s]) simp
    show ?thesis unfolding df_analysis_as_filters 1 2 ..
  qed
qed

text \<open>
  C5. Running the three filter statements of step 8 in any order (any list that names
  all three) gives what the order of the script gives: whenever the order of the script
  yields an analysis sample, every order yields the same table; and on every table the
  constructor returns, every order returns what the order of the script returns, the
  sample or the KeyError for a missing edad_grupo.
\<close>

theorem cohort_filters_in_any_order:
  assumes "set fs = {Active, HasCondom, HasAge}"
  shows "(df_analysis df = Inr out \<longrightarrow> apply_filters fs df = Inr out) \<and>
    (construct_variables raw = Inr df \<longrightarrow> apply_filters fs df = df_analysis df)"
proof (intro conjI impI)
  assume o: "df_analysis df = Inr out"
  note ok = df_analysis_Inr[OF o]
  have a: "\<forall>f\<in>set fs. needs f \<in> set (columns df)" using ok(1) by blast
  have b: "\<forall>f\<in>set [Active, HasCondom, HasAge]. needs f \<in> set (columns df)"
    using ok(1) by blast
  have e1: "apply_filters fs df
      = Inr (df\<lparr>rows := filter (\<lambda>r. \<forall>f\<in>set fs. keeps f r) (rows df)\<rparr>)"
    by (rule apply_filters_ok[OF a ok(2)])
  have e2: "apply_filters [Active, HasCondom, HasAge] df
      = Inr (df\<lparr>rows := filter (\<lambda>r. \<forall>f\<in>set [Active, HasCondom, HasAge]. keeps f r) (rows df)\<rparr>)"
    by (rule apply_filters_ok[OF b ok(2)])
  have s: "set [Active, HasCondom, HasAge] = set fs" using assms by simp
  have "apply_filters fs df = apply_filters [Active, HasCondom, HasAge] df"
    unfolding e1 e2 s ..
  then show "apply_filters fs df = Inr out" using o unfolding df_analysis_as_filters by simp
next
  assume "construct_variables raw = Inr df"
  then show "apply_filters fs df = df_analysis df"
    using assms by (rule constructed_filters_any_order)
qed

theorem cohort_filters_in_any_order_witness:
  "set [HasAge, HasCondom, Active] = {Active, HasCondom, HasAge} \<and>
   df_analysis derived_table = Inr (derived_table\<lparr>rows := [rows derived_table ! 0]\<rparr>) \<and>
   apply_filters [HasAge, HasCondom, Active] derived_table
     = Inr (derived_table\<lparr>rows := [rows derived_table ! 0]\<rparr>) \<and>
   (\<exists>d. construct_variables example_table = Inr d \<and>
      apply_filters [HasAge, HasCondom, Active] d = df_analysis d)"
proof -
  have a: "df_analysis derived_table = Inr (derived_table\<lparr>rows := [rows derived_table ! 0]\<rparr>)"
    by (simp add: derived_table_def df_analysis_def getcol_def series_gt_def series_defs
        filter_rows_def notna_def)
  have b: "set [HasAge, HasCondom, Active] = {Active, HasCondom, HasAge}" by auto
  obtain d where d: "construct_variables example_table = Inr d"
    using example_table_constructs by blast
  note t = cohort_filters_in_any_order[OF b]
  have 1: "apply_filters [HasAge, HasCondom, Active] derived_table
     = Inr (derived_table\<lparr>rows := [rows derived_table ! 0]\<rparr>)"
    using t[of derived_table] a by blast
  have 2: "apply_filters [HasAge, HasCondom, Active] d = df_analysis d"
    using t[of d _ example_table] d by blast
  have "\<exists>d. construct_variables example_table = Inr d \<and>
      apply_filters [HasAge, HasCondom, Active] d = df_analysis d"
    using d 2 by blast
  then show ?thesis using a b 1 by simp
qed

lemma assign_age_group_unparseable:
  "py_float parse c = None \<Longrightarrow> assign_age_group parse c = NA"
  by (simp add: assign_age_group_def)

lemma assign_age_group_below:
  "py_float parse c = Some a \<Longrightarrow> \<not> float_ge a 18 \<Longrightarrow> assign_age_group parse c = NA"
  by (cases a) (auto simp: assign_age_group_def)

lemma assign_age_group_adult:
  assumes "py_float parse c = Some a" "float_ge a 18"
  shows "\<exists>k\<in>{1..7::nat}. assign_age_group parse c = Num (real k)"
proof (cases a)
  case (Finite x)
  then have x: "18 \<le> x" using assms(2) by simp
  consider "x < 30" | "30 \<le> x" "x < 40" | "40 \<le> x" "x < 50" | "50 \<le> x" "x < 60"
    | "60 \<le> x" "x < 70" | "70 \<le> x" "x < 80" | "80 \<le> x" by linarith
  then show ?thesis
  proof cases
    case 1
    then have "assign_age_group parse c = Num (real 1)"
      using assms(1) Finite x by (simp add: assign_age_group_def)
    then show ?thesis by (intro bexI[of _ 1]) simp_all
  next
    case 2
    then have "assign_age_group parse c = Num (real 2)"
      using assms(1) Finite x by (simp add: assign_age_group_def)
    then show ?thesis by (intro bexI[of _ 2]) simp_all
  next
    case 3
    then have "assign_age_group parse c = Num (real 3)"
      using assms(1) Finite x by (simp add: assign_age_group_def)
    then show ?thesis by (intro bexI[of _ 3]) simp_all
  next
    case 4
    then have "assign_age_group parse c = Num (real 4)"
      using assms(1) Finite x by (simp add: assign_age_group_def)
    then show ?thesis by (intro bexI[of _ 4]) simp_all
  next
    case 5
    then have "assign_age_group parse c = Num (real 5)"
      using assms(1) Finite x by (simp add: assign_age_group_def)
    then show ?thesis by (intro bexI[of _ 5]) simp_all
  next
    case 6
    then have "assign_age_group parse c = Num (real 6)"
      using assms(1) Finite x by (simp add: assign_age_group_def)
    then show ?thesis by (intro bexI[of _ 6]) simp_all
  next
    case 7
    then have "assign_age_group parse c = Num (real 7)"
      using assms(1) Finite x by (simp add: assign_age_group_def)
    then show ?thesis by (intro bexI[of _ 7]) simp_all
  qed
next
  case PosInf
  then have "assign_age_group parse c = Num (real 7)"
    using assms(1) by (simp add: assign_age_group_def)
  then show ?thesis by (intro bexI[of _ 7]) simp_all
next
  case NegInf
  then show ?thesis using assms(2) by simp
next
  case NaN
  then show ?thesis using assms(2) by simp
qed

lemma load_csv_eq:
  "load_csv parse df =
     (if ''p4'' \<in> set (columns df)
      then Inr \<lparr>columns = add_column ''edad_grupo'' (columns df),
                rows = map (\<lambda>r. (fst r, (snd r)(''edad_grupo'' :=
                         assign_age_group parse (snd r ''p4'')))) (rows df)\<rparr>
      else Inl (KeyError ''p4''))"
  by (simp add: load_csv_def getcol_def setcol_def zip_same comp_def)


text \<open>
  C10. On the CSV path, a respondent whose raw age does not parse, or parses to a value
  that is not at least 18 (below 18, or NaN), gets an undefined edad_grupo and is not in
  the analysis sample; a raw age that parses to a value of at least 18 gets one group
  code from 1 to 7.
\<close>

theorem csv_age_below_18_excluded:
  assumes "prepare_csv parse df = Inr out" and "distinct (map fst (rows df))"
    and "i < length (rows df)"
  shows "\<exists>d. bind_err (load_csv parse df) construct_variables = Inr d \<and> df_analysis d = Inr out \<and>
     fst (rows d ! i) = fst (rows df ! i) \<and>
     (let age = py_float parse (snd (rows df ! i) ''p4''); g = snd (rows d ! i) ''edad_grupo'' in
        (age = None \<or> (\<exists>a. age = Some a \<and> \<not> float_ge a 18) \<longrightarrow>
           isna g \<and> fst (rows df ! i) \<notin> fst ` set (rows out)) \<and>
        (\<forall>a. age = Some a \<and> float_ge a 18 \<longrightarrow> (\<exists>k\<in>{1..7::nat}. g = Num (real k))))"
proof -
  obtain d0 d where d0: "load_csv parse df = Inr d0" and d: "construct_variables d0 = Inr d"
    and o: "df_analysis d = Inr out"
    using assms(1) unfolding prepare_csv_def prepare_def bind_err_eq_Inr by blast
  have r0: "rows d0 = map (\<lambda>r. (fst r, (snd r)(''edad_grupo'' :=
                         assign_age_group parse (snd r ''p4'')))) (rows df)"
    using d0 unfolding load_csv_eq by (auto split: if_splits)
  have i0: "i < length (rows d0)" using assms(3) r0 by simp
  note n = construct_nth[OF d i0]
  have idx0: "list_all2 (\<lambda>r r'. fst r' = fst r) (rows df) (rows d0)"
    unfolding r0 by (rule list_all2_map_same) simp
  have idx: "list_all2 (\<lambda>r r'. fst r' = fst r) (rows df) (rows d)"
    by (rule list_all2_trans[OF _ idx0 construct_indices[OF d]]) simp
  have fi: "fst (rows d ! i) = fst (rows df ! i)"
    using list_all2_nthD[OF idx assms(3)] .
  have "snd (rows d ! i) ''edad_grupo'' = snd (rows d0 ! i) ''edad_grupo''"
    by (rule derived_from_unchanged[OF n(2)]) (simp add: derived_names_def)
  then have g: "snd (rows d ! i) ''edad_grupo'' = assign_age_group parse (snd (rows df ! i) ''p4'')"
    using assms(3) by (simp add: r0)
  have low: "isna (snd (rows d ! i) ''edad_grupo'') \<and> fst (rows df ! i) \<notin> fst ` set (rows out)"
    if "assign_age_group parse (snd (rows df ! i) ''p4'') = NA"
  proof -
    have na: "snd (rows d ! i) ''edad_grupo'' = NA" using g that by simp
    then have "\<not> keeps HasAge (rows d ! i)" by (simp add: keeps_def notna_def)
    then have "\<not> (\<forall>f\<in>set [Active, HasCondom, HasAge]. keeps f (rows d ! i))" by simp
    from excluded_row[where P = "\<lambda>r. \<forall>f\<in>set [Active, HasCondom, HasAge]. keeps f r",
        OF idx assms(2,3) this]
    have "fst (rows df ! i) \<notin> fst ` set (rows out)"
      unfolding df_analysis_rows[OF o] .
    then show ?thesis using na by simp
  qed
  have A: "py_float parse (snd (rows df ! i) ''p4'') = None \<or>
      (\<exists>a. py_float parse (snd (rows df ! i) ''p4'') = Some a \<and> \<not> float_ge a 18) \<longrightarrow>
      isna (snd (rows d ! i) ''edad_grupo'') \<and> fst (rows df ! i) \<notin> fst ` set (rows out)"
    using low assign_age_group_unparseable assign_age_group_below by blast
  have B: "\<forall>a. py_float parse (snd (rows df ! i) ''p4'') = Some a \<and> float_ge a 18 \<longrightarrow>
      (\<exists>k\<in>{1..7::nat}. snd (rows d ! i) ''edad_grupo'' = Num (real k))"
    unfolding g using assign_age_group_adult by blast
  have "bind_err (load_csv parse df) construct_variables = Inr d" using d0 d by simp
  then show ?thesis using o fi A B unfolding Let_def by blast
qed

theorem csv_age_below_18_excluded_witness:
  "distinct (map fst (rows csv_table)) \<and>
   (\<exists>out d. prepare_csv example_parse csv_table = Inr out \<and>
      bind_err (load_csv example_parse csv_table) construct_variables = Inr d \<and>
      (\<exists>k\<in>{1..7::nat}. snd (rows d ! 0) ''edad_grupo'' = Num (real k)) \<and>
      isna (snd (rows d ! 1) ''edad_grupo'') \<and> 1 \<notin> fst ` set (rows out) \<and>
      isna (snd (rows d ! 2) ''edad_grupo'') \<and> 2 \<notin> fst ` set (rows out))"
proof -
  let ?d0 = "\<lparr>columns = add_column ''edad_grupo'' (columns csv_table),
                rows = map (\<lambda>r. (fst r, (snd r)(''edad_grupo'' :=
                         assign_age_group example_parse (snd r ''p4'')))) (rows csv_table)\<rparr>"
  have l: "load_csv example_parse csv_table = Inr ?d0"
    unfolding load_csv_eq by (simp add: csv_table_def)
  have "\<exists>out. prepare ?d0 = Inr out"
    by (rule prepare_total) (simp_all add: csv_table_def)
  then obtain out where out: "prepare_csv example_parse csv_table = Inr out"
    using l by (auto simp: prepare_csv_def)
  have dist: "distinct (map fst (rows csv_table))" by (simp add: csv_table_def)
  have len: "0 < length (rows csv_table)" "1 < length (rows csv_table)"
    "2 < length (rows csv_table)" by (simp_all add: csv_table_def)
  from csv_age_below_18_excluded[OF out dist len(1)]
  obtain d where d: "bind_err (load_csv example_parse csv_table) construct_variables = Inr d"
    and r0: "let age = py_float example_parse (snd (rows csv_table ! 0) ''p4'');
                 g = snd (rows d ! 0) ''edad_grupo'' in
        (age = None \<or> (\<exists>a. age = Some a \<and> \<not> float_ge a 18) \<longrightarrow>
           isna g \<and> fst (rows csv_table ! 0) \<notin> fst ` set (rows out)) \<and>
        (\<forall>a. age = Some a \<and> float_ge a 18 \<longrightarrow> (\<exists>k\<in>{1..7::nat}. g = Num (real k)))"
    by blast
  from csv_age_below_18_excluded[OF out dist len(2)] d
  have r1: "isna (snd (rows d ! 1) ''edad_grupo'') \<and> 1 \<notin> fst ` set (rows out)"
    by (simp add: csv_table_def Let_def)
  from csv_age_below_18_excluded[OF out dist len(3)] d
  have r2: "isna (snd (rows d ! 2) ''edad_grupo'') \<and> 2 \<notin> fst ` set (rows out)"
    by (simp add: csv_table_def Let_def example_parse_def)
  have g0: "\<exists>k\<in>{1..7::nat}. snd (rows d ! 0) ''edad_grupo'' = Num (real k)"
    using r0 by (simp add: csv_table_def Let_def)
  show ?thesis using dist out d g0 r1 r2 by blast
qed

lemma select_cols_ok:
  "set cs \<subseteq> set (columns df) \<Longrightarrow> select_cols cs df = Inr (df\<lparr>columns := cs\<rparr>)"
proof -
  assume "set cs \<subseteq> set (columns df)"
  then have "filter (\<lambda>c. c \<notin> set (columns df)) cs = []" by (auto simp: filter_empty_conv)
  then show ?thesis by (simp add: select_cols_def)
qed

lemma select_cols_Inr:
  assumes "select_cols cs df = Inr d"
  shows "set cs \<subseteq> set (columns df)" and "d = df\<lparr>columns := cs\<rparr>"
proof -
  have e: "filter (\<lambda>c. c \<notin> set (columns df)) cs = []"
    using assms by (cases "filter (\<lambda>c. c \<notin> set (columns df)) cs") (simp_all add: select_cols_def)
  then show "set cs \<subseteq> set (columns df)" by (auto simp: filter_empty_conv)
  show "d = df\<lparr>columns := cs\<rparr>" using assms e by (simp add: select_cols_def)
qed

lemma complete_cases_Inr:
  assumes "bind_err (select_cols cs df) (\<lambda>d. Inr (dropna d)) = Inr d"
  shows "set cs \<subseteq> set (columns df)" and "columns d = cs"
    and "rows d = filter (complete_case cs) (rows df)"
proof -
  obtain d0 where d0: "select_cols cs df = Inr d0" and d: "d = dropna d0"
    using assms unfolding bind_err_eq_Inr by auto
  note s = select_cols_Inr[OF d0]
  show "set cs \<subseteq> set (columns df)" by (rule s(1))
  show "columns d = cs" using d s(2) by (simp add: dropna_def)
  show "rows d = filter (complete_case cs) (rows df)" using d s(2) by (simp add: dropna_def)
qed

lemma complete_case_subset:
  "set cs \<subseteq> set cs' \<Longrightarrow> complete_case cs' r \<Longrightarrow> complete_case cs r"
  by (auto simp: complete_case_def list_all_iff)

lemma length_filter_mono:
  "(\<And>x. x \<in> set xs \<Longrightarrow> P x \<Longrightarrow> Q x) \<Longrightarrow> length (filter P xs) \<le> length (filter Q xs)"
  by (induction xs) auto

lemma nested_complete_cases:
  assumes "bind_err (select_cols cs df) (\<lambda>d. Inr (dropna d)) = Inr d"
    and "bind_err (select_cols cs' df) (\<lambda>d. Inr (dropna d)) = Inr d'"
    and "set cs \<subseteq> set cs'"
  shows "length (rows d') \<le> length (rows d)"
  unfolding complete_cases_Inr(3)[OF assms(1)] complete_cases_Inr(3)[OF assms(2)]
  by (rule length_filter_mono) (rule complete_case_subset[OF assms(3)])

text \<open>
  C4. Model 2 and Model 5 are fit on the same table: both take the rows of the input
  with no missing cell among always_condom, edad_grupo, hiv_knowledge_score and
  partners_last_year (or both raise the same KeyError).
\<close>

theorem model2_model5_same_rows:
  "model5_data df = model2_data df \<and>
   (\<forall>d. model2_data df = Inr d \<longrightarrow>
      columns d = [''always_condom'', ''edad_grupo'', ''hiv_knowledge_score'',
                   ''partners_last_year''] \<and>
      rows d = filter (\<lambda>r. notna (snd r ''always_condom'') \<and> notna (snd r ''edad_grupo'') \<and>
                            notna (snd r ''hiv_knowledge_score'') \<and>
                            notna (snd r ''partners_last_year'')) (rows df))"
proof -
  have e: "model5_data df = model2_data df" by (simp add: model5_data_def model2_data_def)
  have c: "complete_case [''always_condom'', ''edad_grupo'', ''hiv_knowledge_score'',
                   ''partners_last_year''] =
      (\<lambda>r. notna (snd r ''always_condom'') \<and> notna (snd r ''edad_grupo'') \<and>
                            notna (snd r ''hiv_knowledge_score'') \<and>
                            notna (snd r ''partners_last_year''))"
    by (simp add: complete_case_def fun_eq_iff)
  have "\<forall>d. model2_data df = Inr d \<longrightarrow>
      columns d = [''always_condom'', ''edad_grupo'', ''hiv_knowledge_score'',
                   ''partners_last_year''] \<and>
      rows d = filter (\<lambda>r. notna (snd r ''always_condom'') \<and> notna (snd r ''edad_grupo'') \<and>
                            notna (snd r ''hiv_knowledge_score'') \<and>
                            notna (snd r ''partners_last_year'')) (rows df)"
    unfolding model2_data_def c[symmetric]
    using complete_cases_Inr(2,3) by blast
  then show ?thesis using e by blast
qed

lemma analytic_table_model2:
  "model2_data analytic_table =
     Inr \<lparr>columns = [''always_condom'', ''edad_grupo'', ''hiv_knowledge_score'',
                      ''partners_last_year''],
          rows = [rows analytic_table ! 0, rows analytic_table ! 1, rows analytic_table ! 2]\<rparr>"
  by (simp add: model2_data_def select_cols_def dropna_def complete_case_def notna_def
      analytic_table_def)

theorem model2_model5_same_rows_witness:
  "model5_data analytic_table = model2_data analytic_table \<and>
   (\<exists>d. model5_data analytic_table = Inr d \<and> map fst (rows d) = [0, 1, 2])"
proof -
  let ?d = "\<lparr>columns = [''always_condom'', ''edad_grupo'', ''hiv_knowledge_score'',
                      ''partners_last_year''],
          rows = [rows analytic_table ! 0, rows analytic_table ! 1, rows analytic_table ! 2]\<rparr>"
  note t = model2_model5_same_rows[of analytic_table]
  have e: "model5_data analytic_table = model2_data analytic_table" using t by blast
  have "rows ?d = filter (\<lambda>r. notna (snd r ''always_condom'') \<and> notna (snd r ''edad_grupo'') \<and>
                            notna (snd r ''hiv_knowledge_score'') \<and>
                            notna (snd r ''partners_last_year'')) (rows analytic_table)"
    using t analytic_table_model2 by blast
  then have "map fst (rows ?d) = [0, 1, 2]"
    by (simp add: analytic_table_def notna_def)
  then show ?thesis using e analytic_table_model2 by auto
qed

text \<open>
  C6. The complete-case sample of each successive nested model is no larger than that of
  the model before it: N(Model 1) \<ge> N(Model 2) \<ge> N(Model 3) \<ge> N(Model 4), for each
  pair of models whose columns are all present.
\<close>

theorem nested_models_sample_size_decreases:
  "(model1_data df = Inr d1 \<and> model2_data df = Inr d2 \<longrightarrow>
      set (columns d1) \<subseteq> set (columns d2) \<and> length (rows d2) \<le> length (rows d1)) \<and>
   (model2_data df = Inr d2 \<and> model3_data df = Inr d3 \<longrightarrow>
      set (columns d2) \<subseteq> set (columns d3) \<and> length (rows d3) \<le> length (rows d2)) \<and>
   (model3_data df = Inr d3 \<and> model4_data df = Inr d4 \<longrightarrow>
      set (columns d3) \<subseteq> set (columns d4) \<and> length (rows d4) \<le> length (rows d3))"
proof (intro conjI impI)
  assume a: "model1_data df = Inr d1 \<and> model2_data df = Inr d2"
  then show "length (rows d2) \<le> length (rows d1)"
    unfolding model1_data_def model2_data_def
    by (elim conjE) (erule (1) nested_complete_cases, simp)
  show "set (columns d1) \<subseteq> set (columns d2)"
    using a complete_cases_Inr(2) unfolding model1_data_def model2_data_def
    by (elim conjE) (simp add: complete_cases_Inr(2))
next
  assume a: "model2_data df = Inr d2 \<and> model3_data df = Inr d3"
  then show "length (rows d3) \<le> length (rows d2)"
    unfolding model2_data_def model3_data_def
    by (elim conjE) (erule (1) nested_complete_cases, simp)
  show "set (columns d2) \<subseteq> set (columns d3)"
    using a unfolding model2_data_def model3_data_def
    by (elim conjE) (simp add: complete_cases_Inr(2))
next
  assume a: "model3_data df = Inr d3 \<and> model4_data df = Inr d4"
  then show "length (rows d4) \<le> length (rows d3)"
    unfolding model3_data_def model4_data_def
    by (elim conjE) (erule (1) nested_complete_cases, simp)
  show "set (columns d3) \<subseteq> set (columns d4)"
    using a unfolding model3_data_def model4_data_def
    by (elim conjE) (simp add: complete_cases_Inr(2))
qed


theorem nested_models_sample_size_decreases_witness:
  "model1_data analytic_table =
     Inr (model_sample [''always_condom'', ''edad_grupo'', ''hiv_knowledge_score''] [0, 1, 2, 3]) \<and>
   model2_data analytic_table =
     Inr (model_sample [''always_condom'', ''edad_grupo'', ''hiv_knowledge_score'',
                        ''partners_last_year''] [0, 1, 2]) \<and>
   model3_data analytic_table =
     Inr (model_sample [''always_condom'', ''edad_grupo'', ''hiv_knowledge_score'',
                        ''partners_last_year'', ''any_sti'', ''tested_hiv_12mo''] [0, 1]) \<and>
   model4_data analytic_table =
     Inr (model_sample [''always_condom'', ''edad_grupo'', ''hiv_knowledge_score'',
                        ''partners_last_year'', ''any_sti'', ''tested_hiv_12mo'',
                        ''knows_prep''] [0]) \<and>
   length (rows (model_sample [''always_condom'', ''edad_grupo'', ''hiv_knowledge_score'',
                        ''partners_last_year'', ''any_sti'', ''tested_hiv_12mo'',
                        ''knows_prep''] [0]))
     \<le> length (rows (model_sample [''always_condom'', ''edad_grupo'', ''hiv_knowledge_score'',
                        ''partners_last_year'', ''any_sti'', ''tested_hiv_12mo''] [0, 1])) \<and>
   length (rows (model_sample [''always_condom'', ''edad_grupo'', ''hiv_knowledge_score'',
                        ''partners_last_year'', ''any_sti'', ''tested_hiv_12mo''] [0, 1]))
     \<le> length (rows (model_sample [''always_condom'', ''edad_grupo'', ''hiv_knowledge_score'',
                        ''partners_last_year''] [0, 1, 2])) \<and>
   length (rows (model_sample [''always_condom'', ''edad_grupo'', ''hiv_knowledge_score'',
                        ''partners_last_year''] [0, 1, 2]))
     \<le> length (rows (model_sample [''always_condom'', ''edad_grupo'', ''hiv_knowledge_score'']
                        [0, 1, 2, 3]))"
proof -
  let ?d1 = "model_sample [''always_condom'', ''edad_grupo'', ''hiv_knowledge_score''] [0, 1, 2, 3]"
  let ?d2 = "model_sample [''always_condom'', ''edad_grupo'', ''hiv_knowledge_score'',
                        ''partners_last_year''] [0, 1, 2]"
  let ?d3 = "model_sample [''always_condom'', ''edad_grupo'', ''hiv_knowledge_score'',
                        ''partners_last_year'', ''any_sti'', ''tested_hiv_12mo''] [0, 1]"
  let ?d4 = "model_sample [''always_condom'', ''edad_grupo'', ''hiv_knowledge_score'',
                        ''partners_last_year'', ''any_sti'', ''tested_hiv_12mo'',
                        ''knows_prep''] [0]"
  have 1: "model1_data analytic_table = Inr ?d1"
    by (simp add: model1_data_def select_cols_def dropna_def complete_case_def notna_def
        analytic_table_def model_sample_def)
  have 2: "model2_data analytic_table = Inr ?d2"
    by (simp add: model2_data_def select_cols_def dropna_def complete_case_def notna_def
        analytic_table_def model_sample_def)
  have 3: "model3_data analytic_table = Inr ?d3"
    by (simp add: model3_data_def select_cols_def dropna_def complete_case_def notna_def
        analytic_table_def model_sample_def)
  have 4: "model4_data analytic_table = Inr ?d4"
    by (simp add: model4_data_def select_cols_def dropna_def complete_case_def notna_def
        analytic_table_def model_sample_def)
  from nested_models_sample_size_decreases[of analytic_table ?d1 ?d2 ?d3 ?d4] 1 2 3 4
  have "length (rows ?d2) \<le> length (rows ?d1) \<and> length (rows ?d3) \<le> length (rows ?d2) \<and>
        length (rows ?d4) \<le> length (rows ?d3)" by blast
  then show ?thesis using 1 2 3 4 by blast
qed


lemma age_data_ok:
  assumes "''edad_grupo_lbl'' \<in> set (columns df)"
    and "set [''always_condom'', ''hiv_knowledge_score'', ''partners_last_year'']
           \<subseteq> set (columns df)"
  shows "age_data df age =
     Inr \<lparr>columns = [''always_condom'', ''hiv_knowledge_score'', ''partners_last_year''],
          rows = filter (complete_case
                   [''always_condom'', ''hiv_knowledge_score'', ''partners_last_year''])
                   (filter (\<lambda>r. cell_equals age (snd r ''edad_grupo_lbl'')) (rows df))\<rparr>"
  using assms
  by (simp add: age_data_def getcol_present dropna_def filter_rows_def zip_same comp_def
      select_cols_ok)

lemma set_insert_sorted: "set (insert_sorted x xs) = insert x (set xs)"
  by (induction xs) auto

lemma set_foldr_insert_sorted: "set (foldr insert_sorted xs []) = set xs"
  by (induction xs) (simp_all add: set_insert_sorted)

lemma age_groups_set:
  assumes "age_groups df = Inr groups"
  shows "set groups = {c \<in> (\<lambda>r. snd r ''edad_grupo_lbl'') ` set (rows df). notna c}"
proof -
  have c: "''edad_grupo_lbl'' \<in> set (columns df)"
    using assms by (cases "''edad_grupo_lbl'' \<in> set (columns df)")
      (simp_all add: age_groups_def getcol_def)
  let ?s = "map (\<lambda>r. snd r ''edad_grupo_lbl'') (rows df)"
  have "sorted_cells (filter notna (unique ?s)) = Inr groups"
    using assms c by (simp add: age_groups_def getcol_present)
  then have "groups = foldr insert_sorted (filter notna (unique ?s)) []"
    by (simp add: sorted_cells_def split: if_splits)
  then have "set groups = set (filter notna (unique ?s))"
    by (simp add: set_foldr_insert_sorted)
  then show ?thesis by (auto simp: unique_def)
qed

lemma remdups_replicate_one: "remdups (replicate n x) = (if n = 0 then [] else [x])"
  by (induction n) auto

lemma age_data_group_table:
  assumes "''edad_grupo_lbl'' \<in> set (columns df)"
    and "set [''always_condom'', ''hiv_knowledge_score'', ''partners_last_year'']
           \<subseteq> set (columns df)"
    and "notna age"
  shows "age_data df age = Inr (group_table df age)"
proof -
  have "filter (complete_case
                   [''always_condom'', ''hiv_knowledge_score'', ''partners_last_year''])
                   (filter (\<lambda>r. cell_equals age (snd r ''edad_grupo_lbl'')) (rows df))
        = complete_rows df age"
    unfolding complete_rows_def filter_filter
    by (rule filter_cong) (use assms(3) in \<open>auto simp: complete_case_def cell_equals_def\<close>)
  then show ?thesis
    unfolding age_data_ok[OF assms(1,2)] group_table_def by simp
qed

lemma strata_loop_returns:
  assumes "\<And>age. age \<in> set groups \<Longrightarrow> age_data df age = Inr (group_table df age)"
    and "\<And>age. age \<in> set groups \<Longrightarrow> 30 \<le> length (complete_rows df age)
           \<Longrightarrow> \<exists>m. fit (group_table df age) = Inr m"
  shows "\<exists>res. strata_loop fit df groups acc = Inr (acc @ res) \<and>
     map Age_Group res = filter (\<lambda>age. 30 \<le> length (complete_rows df age)) groups \<and>
     (\<forall>r\<in>set res. N r = length (complete_rows df (Age_Group r)) \<and>
        fit (group_table df (Age_Group r)) = Inr (fitted r))"
  using assms
proof (induction groups arbitrary: acc)
  case Nil
  then show ?case by simp
next
  case (Cons age groups)
  have d: "age_data df age = Inr (group_table df age)" using Cons.prems(1) by simp
  have l: "length (rows (group_table df age)) = length (complete_rows df age)"
    by (simp add: group_table_def)
  have IH: "\<exists>res. strata_loop fit df groups acc' = Inr (acc' @ res) \<and>
     map Age_Group res = filter (\<lambda>age. 30 \<le> length (complete_rows df age)) groups \<and>
     (\<forall>r\<in>set res. N r = length (complete_rows df (Age_Group r)) \<and>
        fit (group_table df (Age_Group r)) = Inr (fitted r))" for acc'
  proof (rule Cons.IH)
    fix a assume "a \<in> set groups"
    then show "age_data df a = Inr (group_table df a)" using Cons.prems(1) by simp
  next
    fix a assume "a \<in> set groups" "30 \<le> length (complete_rows df a)"
    then show "\<exists>m. fit (group_table df a) = Inr m" using Cons.prems(2)[of a] by simp
  qed
  show ?case
  proof (cases "30 \<le> length (complete_rows df age)")
    case False
    from IH[of acc] obtain res where
      res: "strata_loop fit df groups acc = Inr (acc @ res)"
      "map Age_Group res = filter (\<lambda>age. 30 \<le> length (complete_rows df age)) groups"
      "\<forall>r\<in>set res. N r = length (complete_rows df (Age_Group r)) \<and>
        fit (group_table df (Age_Group r)) = Inr (fitted r)" by blast
    have "strata_loop fit df (age # groups) acc = Inr (acc @ res)"
      using d False res(1) l by simp
    moreover have "map Age_Group res
        = filter (\<lambda>age. 30 \<le> length (complete_rows df age)) (age # groups)"
      using res(2) False by simp
    ultimately show ?thesis using res(3) by blast
  next
    case True
    obtain m where m: "fit (group_table df age) = Inr m"
      using Cons.prems(2)[of age] True by auto
    let ?row = "\<lparr>Age_Group = age, N = length (rows (group_table df age)), fitted = m\<rparr>"
    from IH[of "acc @ [?row]"] obtain res where
      res: "strata_loop fit df groups (acc @ [?row]) = Inr ((acc @ [?row]) @ res)"
      "map Age_Group res = filter (\<lambda>age. 30 \<le> length (complete_rows df age)) groups"
      "\<forall>r\<in>set res. N r = length (complete_rows df (Age_Group r)) \<and>
        fit (group_table df (Age_Group r)) = Inr (fitted r)" by blast
    have "strata_loop fit df (age # groups) acc = Inr (acc @ (?row # res))"
      using d True m res(1) l by simp
    moreover have "map Age_Group (?row # res)
        = filter (\<lambda>age. 30 \<le> length (complete_rows df age)) (age # groups)"
      using res(2) True by simp
    moreover have "\<forall>r\<in>set (?row # res). N r = length (complete_rows df (Age_Group r)) \<and>
        fit (group_table df (Age_Group r)) = Inr (fitted r)"
      using res(3) l m by simp
    ultimately show ?thesis by blast
  qed
qed

lemma strata_loop_raises:
  assumes "\<And>age. age \<in> set groups \<Longrightarrow> age_data df age = Inr (group_table df age)"
    and "a \<in> set groups" and "30 \<le> length (complete_rows df a)"
    and "fit (group_table df a) = Inl e"
  shows "\<exists>e'. strata_loop fit df groups acc = Inl e'"
  using assms
proof (induction groups arbitrary: acc)
  case Nil
  then show ?case by simp
next
  case (Cons age groups)
  have d: "age_data df age = Inr (group_table df age)" using Cons.prems(1) by simp
  have l: "length (rows (group_table df age)) = length (complete_rows df age)"
    by (simp add: group_table_def)
  have IH: "\<exists>e'. strata_loop fit df groups acc' = Inl e'" if "a \<in> set groups" for acc'
  proof (rule Cons.IH)
    fix x assume "x \<in> set groups"
    then show "age_data df x = Inr (group_table df x)" using Cons.prems(1) by simp
  next
    show "a \<in> set groups" by (rule that)
    show "30 \<le> length (complete_rows df a)" by (rule Cons.prems(3))
    show "fit (group_table df a) = Inl e" by (rule Cons.prems(4))
  qed
  show ?case
  proof (cases "30 \<le> length (complete_rows df age)")
    case False
    then have "a \<noteq> age" using Cons.prems(3) by auto
    then have "a \<in> set groups" using Cons.prems(2) by simp
    from IH[OF this, of acc] show ?thesis using d False l by simp
  next
    case True
    show ?thesis
    proof (cases "fit (group_table df age)")
      case (Inl e')
      then show ?thesis using d True l by simp
    next
      case (Inr m)
      then have "a \<noteq> age" using Cons.prems(4) by auto
      then have "a \<in> set groups" using Cons.prems(2) by simp
      from IH[OF this] show ?thesis using d True l Inr by simp
    qed
  qed
qed

lemma distinct_insert_sorted: "distinct (insert_sorted x xs) \<longleftrightarrow> x \<notin> set xs \<and> distinct xs"
  by (induction xs) (auto simp: set_insert_sorted)

lemma distinct_foldr_insert_sorted: "distinct xs \<Longrightarrow> distinct (foldr insert_sorted xs [])"
  by (induction xs) (simp_all add: distinct_insert_sorted set_foldr_insert_sorted)

lemma age_groups_distinct:
  assumes "age_groups df = Inr groups"
  shows "distinct groups"
proof -
  have c: "''edad_grupo_lbl'' \<in> set (columns df)"
    using assms by (cases "''edad_grupo_lbl'' \<in> set (columns df)")
      (simp_all add: age_groups_def getcol_def)
  let ?s = "map (\<lambda>r. snd r ''edad_grupo_lbl'') (rows df)"
  have "sorted_cells (filter notna (unique ?s)) = Inr groups"
    using assms c by (simp add: age_groups_def getcol_present)
  then have "groups = foldr insert_sorted (filter notna (unique ?s)) []"
    by (simp add: sorted_cells_def split: if_splits)
  moreover have "distinct (filter notna (unique ?s))" by (simp add: unique_def)
  ultimately show ?thesis by (simp add: distinct_foldr_insert_sorted)
qed


lemma rows_group_table: "rows (group_table df age) = complete_rows df age"
  by (simp add: group_table_def)

lemma age_groups_column:
  assumes "age_groups df = Inr groups"
  shows "''edad_grupo_lbl'' \<in> set (columns df)"
  using assms by (cases "''edad_grupo_lbl'' \<in> set (columns df)")
    (simp_all add: age_groups_def getcol_def)

text \<open>
  C8 (as the code has it). The age groups of the loop are the distinct labels present in
  the table, and the table of a group holds its complete cases: the respondents with
  that label and no missing always_condom, hiv_knowledge_score or partners_last_year.
  When no fit raises, a result row is produced for a label if and only if its group has
  at least 30 complete cases, with that count as N and the model fit on those rows; a
  group below 30 is never fit and raises nothing. When the fit of a group with at least
  30 complete cases raises, the loop stops with an error and produces no result row.
\<close>

theorem age_stratified_minimum_30:
  assumes "age_groups df = Inr groups"
    and "set [''always_condom'', ''hiv_knowledge_score'', ''partners_last_year'']
           \<subseteq> set (columns df)"
  shows "set groups = {c \<in> (\<lambda>r. snd r ''edad_grupo_lbl'') ` set (rows df). notna c} \<and>
    distinct groups \<and>
    (\<forall>age\<in>set groups. age_data df age = Inr (group_table df age)) \<and>
    ((\<forall>age\<in>set groups. 30 \<le> length (complete_rows df age)
          \<longrightarrow> (\<exists>m. fit (group_table df age) = Inr m)) \<longrightarrow>
       (\<exists>results. age_stratified_results fit df = Inr results \<and>
          map Age_Group results
            = filter (\<lambda>age. 30 \<le> length (complete_rows df age)) groups \<and>
          (\<forall>age\<in>set groups. age \<in> Age_Group ` set results
             \<longleftrightarrow> 30 \<le> length (complete_rows df age)) \<and>
          (\<forall>r\<in>set results. N r = length (complete_rows df (Age_Group r)) \<and>
             fit (group_table df (Age_Group r)) = Inr (fitted r)))) \<and>
    ((\<exists>age\<in>set groups. 30 \<le> length (complete_rows df age) \<and>
          (\<exists>e. fit (group_table df age) = Inl e)) \<longrightarrow>
       (\<exists>e. age_stratified_results fit df = Inl e))"
proof -
  note c = age_groups_column[OF assms(1)]
  note gs = age_groups_set[OF assms(1)]
  have nn: "notna age" if "age \<in> set groups" for age using that gs by simp
  have ad: "age_data df age = Inr (group_table df age)" if "age \<in> set groups" for age
    by (rule age_data_group_table[OF c assms(2) nn[OF that]])
  have run: "age_stratified_results fit df = strata_loop fit df groups []"
    using assms(1) by (simp add: age_stratified_results_def)
  have ok: "\<exists>results. age_stratified_results fit df = Inr results \<and>
          map Age_Group results
            = filter (\<lambda>age. 30 \<le> length (complete_rows df age)) groups \<and>
          (\<forall>age\<in>set groups. age \<in> Age_Group ` set results
             \<longleftrightarrow> 30 \<le> length (complete_rows df age)) \<and>
          (\<forall>r\<in>set results. N r = length (complete_rows df (Age_Group r)) \<and>
             fit (group_table df (Age_Group r)) = Inr (fitted r))"
    if f: "\<forall>age\<in>set groups. 30 \<le> length (complete_rows df age)
          \<longrightarrow> (\<exists>m. fit (group_table df age) = Inr m)"
  proof -
    have f': "\<exists>m. fit (group_table df age) = Inr m"
      if "age \<in> set groups" "30 \<le> length (complete_rows df age)" for age
      using f that by blast
    from strata_loop_returns[of groups df fit "[]", OF ad f']
    obtain res where res: "strata_loop fit df groups [] = Inr res"
      "map Age_Group res = filter (\<lambda>age. 30 \<le> length (complete_rows df age)) groups"
      "\<forall>r\<in>set res. N r = length (complete_rows df (Age_Group r)) \<and>
        fit (group_table df (Age_Group r)) = Inr (fitted r)" by auto
    have "set (map Age_Group res)
        = set (filter (\<lambda>age. 30 \<le> length (complete_rows df age)) groups)"
      using res(2) by simp
    then have iff: "\<forall>age\<in>set groups. age \<in> Age_Group ` set res
             \<longleftrightarrow> 30 \<le> length (complete_rows df age)" by auto
    show ?thesis unfolding run using res(1) res(2) iff res(3) by blast
  qed
  have bad: "\<exists>e. age_stratified_results fit df = Inl e"
    if "\<exists>age\<in>set groups. 30 \<le> length (complete_rows df age) \<and>
          (\<exists>e. fit (group_table df age) = Inl e)"
  proof -
    from that obtain a e where a: "a \<in> set groups" "30 \<le> length (complete_rows df a)"
      "fit (group_table df a) = Inl e" by blast
    show ?thesis unfolding run
    proof (rule strata_loop_raises[where a = a and e = e])
      fix age assume "age \<in> set groups"
      then show "age_data df age = Inr (group_table df age)" by (rule ad)
    qed (rule a)+
  qed
  show ?thesis
    using gs age_groups_distinct[OF assms(1)] ad ok bad by blast
qed

lemma strata_table_groups: "age_groups strata_table = Inr [Str ''18-29'', Str ''30-39'']"
  by (simp add: age_groups_def getcol_def strata_table_def unique_def sorted_cells_def
      notna_def comp_def map_replicate_const remdups_replicate_one)

lemma strata_table_counts:
  "length (complete_rows strata_table (Str ''18-29'')) = 29"
  "length (complete_rows strata_table (Str ''30-39'')) = 30"
  by (simp_all add: complete_rows_def strata_table_def notna_def filter_map comp_def)

lemma strata_table_group_tables:
  "age_data strata_table (Str ''18-29'') = Inr (group_table strata_table (Str ''18-29''))"
  "age_data strata_table (Str ''30-39'') = Inr (group_table strata_table (Str ''30-39''))"
  by (rule age_data_group_table; simp add: strata_table_def notna_def)+

theorem age_stratified_minimum_30_witness:
  "age_groups strata_table = Inr [Str ''18-29'', Str ''30-39''] \<and>
   length (complete_rows strata_table (Str ''18-29'')) = 29 \<and>
   length (complete_rows strata_table (Str ''30-39'')) = 30 \<and>
   (\<exists>results. age_stratified_results example_fit strata_table = Inr results \<and>
      map Age_Group results = [Str ''30-39''] \<and> map N results = [30]) \<and>
   (\<exists>e. age_stratified_results raising_fit strata_table = Inl e)"
proof -
  have c: "set [''always_condom'', ''hiv_knowledge_score'', ''partners_last_year'']
           \<subseteq> set (columns strata_table)" by (simp add: strata_table_def)
  note t = age_stratified_minimum_30[OF strata_table_groups c]
  have f: "\<forall>age\<in>set [Str ''18-29'', Str ''30-39''].
      30 \<le> length (complete_rows strata_table age)
        \<longrightarrow> (\<exists>m. example_fit (group_table strata_table age) = Inr m)"
    by (simp add: example_fit_def rows_group_table strata_table_counts)
  have "\<exists>results. age_stratified_results example_fit strata_table = Inr results \<and>
          map Age_Group results
            = filter (\<lambda>age. 30 \<le> length (complete_rows strata_table age))
                [Str ''18-29'', Str ''30-39''] \<and>
          (\<forall>age\<in>set [Str ''18-29'', Str ''30-39'']. age \<in> Age_Group ` set results
             \<longleftrightarrow> 30 \<le> length (complete_rows strata_table age)) \<and>
          (\<forall>r\<in>set results. N r = length (complete_rows strata_table (Age_Group r)) \<and>
             example_fit (group_table strata_table (Age_Group r)) = Inr (fitted r))"
    by (rule mp[OF t[of example_fit, THEN conjunct2, THEN conjunct2, THEN conjunct2,
            THEN conjunct1] f])
  then obtain results where r: "age_stratified_results example_fit strata_table = Inr results"
    "map Age_Group results
       = filter (\<lambda>age. 30 \<le> length (complete_rows strata_table age))
           [Str ''18-29'', Str ''30-39'']"
    "\<forall>r\<in>set results. N r = length (complete_rows strata_table (Age_Group r)) \<and>
        example_fit (group_table strata_table (Age_Group r)) = Inr (fitted r)"
    by (elim exE conjE)
  have g: "map Age_Group results = [Str ''30-39'']"
    using r(2) by (simp add: strata_table_counts)
  then obtain x where x: "results = [x]" "Age_Group x = Str ''30-39''" by auto
  then have "N x = 30" using r(3) by (simp add: strata_table_counts)
  then have n: "map N results = [30]" using x by simp
  have 1: "\<exists>results. age_stratified_results example_fit strata_table = Inr results \<and>
      map Age_Group results = [Str ''30-39''] \<and> map N results = [30]"
    by (rule exI[of _ results]) (simp add: r(1) g n)
  have b: "\<exists>age\<in>set [Str ''18-29'', Str ''30-39''].
      30 \<le> length (complete_rows strata_table age) \<and>
      (\<exists>e. raising_fit (group_table strata_table age) = Inl e)"
    by (simp add: raising_fit_def strata_table_counts)
  have 2: "\<exists>e. age_stratified_results raising_fit strata_table = Inl e"
    by (rule mp[OF t[of raising_fit, THEN conjunct2, THEN conjunct2, THEN conjunct2,
            THEN conjunct2] b])
  show ?thesis using 1 2 by (simp add: strata_table_groups strata_table_counts)
qed

text \<open>
  C8 as stated fails: the group 30-39 of this table has 30 complete cases, but with a
  fit that raises the loop returns the error and no result row.
\<close>

theorem age_stratified_fit_raises_counterexample:
  "age_groups strata_table = Inr [Str ''18-29'', Str ''30-39''] \<and>
   length (complete_rows strata_table (Str ''30-39'')) = 30 \<and>
   age_data strata_table (Str ''30-39'') = Inr (group_table strata_table (Str ''30-39'')) \<and>
   age_stratified_results raising_fit strata_table = Inl FitError"
proof -
  have "age_stratified_results raising_fit strata_table = Inl FitError"
    by (simp add: age_stratified_results_def strata_table_groups strata_table_group_tables
        rows_group_table strata_table_counts raising_fit_def)
  then show ?thesis
    by (simp add: strata_table_groups strata_table_counts strata_table_group_tables)
qed

text \<open>
  C3. On a table with no its_alguna_vez column and no column whose name starts with
  p202_, the code leaves any_sti at the number 0 in every row: it is defined, where the
  claim says undefined for the whole column. On the same table the sibling derivation
  hiv_diagnosis, whose column is absent too, is undefined in every row.
\<close>

theorem any_sti_zero_without_diagnosis_columns:
  "''its_alguna_vez'' \<notin> set (columns example_table) \<and> sti_vars example_table = [] \<and>
   any_sti example_table = Inr (setcol_scalar ''any_sti'' (Num 0) example_table) \<and>
   snd (rows (setcol_scalar ''any_sti'' (Num 0) example_table) ! 0) ''any_sti'' = Num 0 \<and>
   snd (rows (setcol_scalar ''any_sti'' (Num 0) example_table) ! 1) ''any_sti'' = Num 0 \<and>
   snd (rows (setcol_scalar ''any_sti'' (Num 0) example_table) ! 2) ''any_sti'' = Num 0 \<and>
   \<not> isna (snd (rows (setcol_scalar ''any_sti'' (Num 0) example_table) ! 0) ''any_sti'') \<and>
   hiv_diagnosis example_table = Inr (setcol_scalar ''hiv_diagnosis'' NA example_table) \<and>
   isna (snd (rows (setcol_scalar ''hiv_diagnosis'' NA example_table) ! 0) ''hiv_diagnosis'')"
  by (simp add: any_sti_def hiv_diagnosis_def sti_vars_def startswith_def example_table_def)

end
